theory Spec2Isabelle
  imports
    Complex_Main
    "HOL-Library.Sublist"
    "HOL-Library.Multiset"
    "HOL-Library.Char_ord"
    "HOL-Library.List_Lexorder"
    "HOL-Library.Product_Lexorder"
begin

section \<open>Barbershop reservation system: the reservation controller\<close>

text \<open>
  A shallow embedding of \<^verbatim>\<open>backend/src/controllers/reservationController.js\<close>,
  \<^verbatim>\<open>backend/src/models/Reservation.js\<close>, \<^verbatim>\<open>backend/src/services/notificationFactory.js\<close>
  and the route table and validation chain of \<^verbatim>\<open>backend/src/app.js\<close>.

  JavaScript strings are modelled as \<^typ>\<open>string\<close> (the texts are taken to be ASCII, so
  that a character is a code unit), the \<^verbatim>\<open>reservations\<close> table as the list of its rows,
  a JSON number as a rational. The functions of the libraries the code calls and whose
  code is not part of the repository (validator.js predicates, the mail transport) are
  parameters of the model, collected in the record \<open>env\<close>; the UUID that the model's
  default generates is an argument of the creating handler. The table is a PostgreSQL
  table with the column types of the model definition: a row holds the values as the
  columns store them, and a statement with a value that its column refuses throws. The
  input functions of the UUID, DATEONLY and TIME columns are parameters as well; those of
  the INTEGER, DECIMAL(10,2), VARCHAR(255) and TEXT columns are written out. The
  \<^verbatim>\<open>createdAt\<close>/\<^verbatim>\<open>updatedAt\<close> columns are left out.
\<close>

subsection \<open>Strings of JavaScript\<close>

text \<open>\<^verbatim>\<open>Number.prototype.toString()\<close> on a natural number: its decimal digits.\<close>

definition digit_char :: "nat \<Rightarrow> char" where
  "digit_char n = ''0123456789'' ! n"

function toString :: "nat \<Rightarrow> string" where
  "toString n = (if n < 10 then [digit_char n] else toString (n div 10) @ [digit_char (n mod 10)])"
  by pat_completeness auto
termination
  by (relation "measure (\<lambda>n. n)") auto

declare toString.simps [simp del]

text \<open>\<^verbatim>\<open>String.prototype.padStart(targetLength, padString)\<close>.\<close>

definition padStart :: "nat \<Rightarrow> string \<Rightarrow> string \<Rightarrow> string" where
  "padStart targetLength padString s =
     (if targetLength \<le> length s \<or> padString = [] then s
      else take (targetLength - length s)
             (concat (replicate (targetLength - length s) padString)) @ s)"

text \<open>
  \<^verbatim>\<open>String.prototype.toLowerCase()\<close> and the white space of \<^verbatim>\<open>\s\<close>, on the ASCII part of
  the character set.
\<close>

definition lower_char :: "char \<Rightarrow> char" where
  "lower_char c =
     (if c \<in> set ''ABCDEFGHIJKLMNOPQRSTUVWXYZ''
      then char_of (of_char c + (32::nat)) else c)"

definition toLowerCase :: "string \<Rightarrow> string" where
  "toLowerCase s = map lower_char s"

definition isSpace :: "char \<Rightarrow> bool" where
  "isSpace c = (c \<in> {CHR '' '', CHR 0x09, CHR 0x0A, CHR 0x0B, CHR 0x0C, CHR 0x0D})"

definition trim :: "string \<Rightarrow> string" where
  "trim s = rev (dropWhile isSpace (rev (dropWhile isSpace s)))"

text \<open>Truthiness of a string value or of \<^verbatim>\<open>undefined\<close>: only a non-empty string is truthy.\<close>

fun truthy :: "string option \<Rightarrow> bool" where
  "truthy None = False"
| "truthy (Some s) = (s \<noteq> [])"

subsection \<open>The slot grid\<close>

text \<open>
  \<^verbatim>\<open>generateTimeSlots\<close>: the loop \<^verbatim>\<open>for (let hour = 9; hour < 18; hour++)\<close> pushes the
  \<^verbatim>\<open>:00:00\<close> and the \<^verbatim>\<open>:30:00\<close> slot of each hour.
\<close>

function generateTimeSlots_loop :: "nat \<Rightarrow> string list \<Rightarrow> string list" where
  "generateTimeSlots_loop hour slots =
     (if hour < 18
      then generateTimeSlots_loop (hour + 1)
             (slots @ [padStart 2 ''0'' (toString hour) @ '':00:00'',
                       padStart 2 ''0'' (toString hour) @ '':30:00''])
      else slots)"
  by pat_completeness auto
termination
  by (relation "measure (\<lambda>(hour, slots). 18 - hour)") auto

declare generateTimeSlots_loop.simps [simp del]

definition generateTimeSlots :: "string list" where
  "generateTimeSlots = generateTimeSlots_loop 9 []"

subsection \<open>The Reservation model\<close>

text \<open>
  The attributes of \<^verbatim>\<open>models/Reservation.js\<close>. The primary key \<^verbatim>\<open>id\<close> is the field
  \<open>res_id\<close>; \<^verbatim>\<open>notes\<close> (the field \<open>res_notes\<close>) is the one attribute that may be null.
\<close>

record reservation =
  res_id :: string
  customerName :: string
  customerEmail :: string
  customerPhone :: string
  barberId :: string
  barberName :: string
  serviceType :: string
  appointmentDate :: string
  appointmentTime :: string
  duration :: int
  price :: rat
  status :: string
  res_notes :: "string option"

text \<open>
  A key of a JSON request body: absent (\<^verbatim>\<open>undefined\<close>), \<^verbatim>\<open>null\<close>, or a value. The
  body of a request holds the model's attributes, each with a value of the JSON type of
  the attribute: a text, an integer for \<^verbatim>\<open>duration\<close>, a number for \<^verbatim>\<open>price\<close>.
\<close>

datatype 'a field = Absent | Null | Val 'a

record req_body =
  b_id :: "string field"
  b_customerName :: "string field"
  b_customerEmail :: "string field"
  b_customerPhone :: "string field"
  b_barberId :: "string field"
  b_barberName :: "string field"
  b_serviceType :: "string field"
  b_appointmentDate :: "string field"
  b_appointmentTime :: "string field"
  b_duration :: "int field"
  b_price :: "rat field"
  b_status :: "string field"
  b_notes :: "string field"

definition empty_body :: req_body where
  "empty_body =
     \<lparr>b_id = Absent, b_customerName = Absent, b_customerEmail = Absent,
      b_customerPhone = Absent, b_barberId = Absent, b_barberName = Absent,
      b_serviceType = Absent, b_appointmentDate = Absent, b_appointmentTime = Absent,
      b_duration = Absent, b_price = Absent, b_status = Absent, b_notes = Absent\<rparr>"

datatype error =
    TypeError string
  | SequelizeValidationError "string list"
  | SequelizeUniqueConstraintError
  | SequelizeDatabaseError "string list"
  | Error string

text \<open>
  The message of an error. For an error of the database the engine's own text is not
  modelled: the message names the columns that refused their value.
\<close>

fun message :: "error \<Rightarrow> string" where
  "message (TypeError m) = m"
| "message (SequelizeValidationError attrs) = ''Validation error: '' @ concat attrs"
| "message SequelizeUniqueConstraintError = ''Validation error''"
| "message (SequelizeDatabaseError columns) = ''invalid input value: '' @ concat columns"
| "message (Error m) = m"

subsection \<open>Notifications\<close>

text \<open>
  The data handed to a notification: recipient, subject and the values the controller
  interpolates into the HTML body (the fixed text of the template is left out).
\<close>

datatype template =
    Confirmation string string string string string rat
  | Cancellation string

record notification_data =
  recipient :: string
  subject :: string
  body :: template

text \<open>
  The library functions the code calls. \<open>sendMail\<close> is nodemailer's
  \<^verbatim>\<open>transporter.sendMail\<close>: \<open>Inr\<close> the message id, \<open>Inl\<close> the message of the error it
  throws. \<open>isEmail\<close>, \<open>normalizeEmail\<close>, \<open>isUUID\<close>, \<open>isDate\<close> and \<open>isDecimal\<close> are
  validator.js predicates and sanitizers. \<open>asUUID\<close>, \<open>asDate\<close> and \<open>asTime\<close> are the
  input functions of the UUID, DATEONLY and TIME columns (for a date, Sequelize's own
  formatting of the value included): \<open>None\<close> when the text is refused and the statement
  throws, otherwise the text that the column stores, compares and reads back
  (\<^verbatim>\<open>9:00:00\<close> is stored as \<^verbatim>\<open>09:00:00\<close>).
\<close>

record env =
  isEmail :: "string \<Rightarrow> bool"
  normalizeEmail :: "string \<Rightarrow> string"
  isUUID :: "string \<Rightarrow> bool"
  isDate :: "string \<Rightarrow> bool"
  isDecimal :: "rat \<Rightarrow> bool"
  sendMail :: "notification_data \<Rightarrow> string + string"
  asUUID :: "string \<Rightarrow> string option"
  asDate :: "string \<Rightarrow> string option"
  asTime :: "string \<Rightarrow> string option"

text \<open>
  The state the handlers work on: the \<^verbatim>\<open>reservations\<close> table, the mails handed to the
  transport, and the lines written to the console.
\<close>

record state =
  reservations :: "reservation list"
  outbox :: "notification_data list"
  console :: "string list"

datatype notification = EmailNotification | SMSNotification | PushNotification

datatype send_result =
    Sent_messageId string
  | Sent_message string
  | Send_failed string

definition createNotification :: "string \<Rightarrow> error + notification" where
  "createNotification type =
     (let t = toLowerCase type in
      if t = ''email'' then Inr EmailNotification
      else if t = ''sms'' then Inr SMSNotification
      else if t = ''push'' then Inr PushNotification
      else Inl (Error (''Unsupported notification type: '' @ type)))"

text \<open>
  \<^verbatim>\<open>send\<close> of each notification class. \<^verbatim>\<open>EmailNotification.send\<close> catches what the
  transport throws and returns \<^verbatim>\<open>{success: false}\<close>.
\<close>

fun notification_send ::
  "env \<Rightarrow> notification \<Rightarrow> notification_data \<Rightarrow> state \<Rightarrow> send_result \<times> state" where
  "notification_send e EmailNotification data s =
     (case sendMail e data of
        Inr messageId \<Rightarrow>
          (Sent_messageId messageId,
           s\<lparr>outbox := outbox s @ [data],
             console := console s @ [''Email sent: '' @ messageId]\<rparr>)
      | Inl err \<Rightarrow>
          (Send_failed err,
           s\<lparr>outbox := outbox s @ [data],
             console := console s @ [''Email send failed: '' @ err]\<rparr>))"
| "notification_send e SMSNotification data s =
     (Sent_message ''SMS sent successfully'',
      s\<lparr>console := console s @ [''SMS sent to '' @ recipient data]\<rparr>)"
| "notification_send e PushNotification data s =
     (Sent_message ''Push notification sent successfully'',
      s\<lparr>console := console s @ [''Push notification sent to '' @ recipient data]\<rparr>)"

text \<open>\<^verbatim>\<open>NotificationFactory.send\<close>: every error is caught and returned as a failed result.\<close>

definition NotificationFactory_send ::
  "env \<Rightarrow> string \<Rightarrow> notification_data \<Rightarrow> state \<Rightarrow> send_result \<times> state" where
  "NotificationFactory_send e type data s =
     (case createNotification type of
        Inr notification \<Rightarrow> notification_send e notification data s
      | Inl err \<Rightarrow>
          (Send_failed (message err),
           s\<lparr>console := console s @ [''Notification failed: '' @ message err]\<rparr>))"

subsection \<open>The columns of the table\<close>

text \<open>
  The input functions of the columns whose types are plain. A TEXT column refuses a text
  with the NUL character. A VARCHAR(255) column (\<^verbatim>\<open>DataTypes.STRING\<close>) refuses a text of
  more than 255 characters unless the excess is spaces, which it cuts off. An INTEGER
  column holds 32 bits. A DECIMAL(10,2) column rounds to two decimals, half away from
  zero, and refuses what then needs more than eight digits before the point.
\<close>

definition text_column :: "string \<Rightarrow> string option" where
  "text_column v = (if CHR 0x00 \<in> set v then None else Some v)"

definition varchar_255 :: "string \<Rightarrow> string option" where
  "varchar_255 v =
     (if CHR 0x00 \<in> set v then None
      else if length v \<le> 255 then Some v
      else if list_all (\<lambda>c. c = CHR '' '') (drop 255 v) then Some (take 255 v)
      else None)"

definition integer_column :: "int \<Rightarrow> int option" where
  "integer_column n =
     (if - 2147483648 \<le> n \<and> n \<le> 2147483647 then Some n else None)"

definition decimal_10_2 :: "rat \<Rightarrow> rat option" where
  "decimal_10_2 p =
     (let hundredths =
            (if 0 \<le> p then \<lfloor>p * 100 + 1 / 2\<rfloor> else - \<lfloor>- p * 100 + 1 / 2\<rfloor>)
      in if \<bar>hundredths\<bar> < 10000000000 then Some (of_int hundredths / 100) else None)"

text \<open>
  A key of a body against its column: whether the column refuses the value, and the
  value as the column stores it.
\<close>

fun refuses :: "('a \<Rightarrow> 'a option) \<Rightarrow> 'a field \<Rightarrow> bool" where
  "refuses column (Val v) = (column v = None)"
| "refuses column Absent = False"
| "refuses column Null = False"

fun stored :: "('a \<Rightarrow> 'a option) \<Rightarrow> 'a field \<Rightarrow> 'a field" where
  "stored column (Val v) = (case column v of Some c \<Rightarrow> Val c | None \<Rightarrow> Val v)"
| "stored column Absent = Absent"
| "stored column Null = Null"

definition column_errors :: "string \<Rightarrow> ('a \<Rightarrow> 'a option) \<Rightarrow> 'a field \<Rightarrow> string list" where
  "column_errors name column v = (if refuses column v then [name] else [])"

definition refused_columns :: "env \<Rightarrow> req_body \<Rightarrow> string list" where
  "refused_columns e b =
     column_errors ''id'' (asUUID e) (b_id b) @
     column_errors ''customerName'' varchar_255 (b_customerName b) @
     column_errors ''customerEmail'' varchar_255 (b_customerEmail b) @
     column_errors ''customerPhone'' varchar_255 (b_customerPhone b) @
     column_errors ''barberId'' (asUUID e) (b_barberId b) @
     column_errors ''barberName'' varchar_255 (b_barberName b) @
     column_errors ''serviceType'' varchar_255 (b_serviceType b) @
     column_errors ''appointmentDate'' (asDate e) (b_appointmentDate b) @
     column_errors ''appointmentTime'' (asTime e) (b_appointmentTime b) @
     column_errors ''duration'' integer_column (b_duration b) @
     column_errors ''price'' decimal_10_2 (b_price b) @
     column_errors ''status'' varchar_255 (b_status b) @
     column_errors ''notes'' text_column (b_notes b)"

definition as_stored :: "env \<Rightarrow> req_body \<Rightarrow> req_body" where
  "as_stored e b =
     \<lparr>b_id = stored (asUUID e) (b_id b),
      b_customerName = stored varchar_255 (b_customerName b),
      b_customerEmail = stored varchar_255 (b_customerEmail b),
      b_customerPhone = stored varchar_255 (b_customerPhone b),
      b_barberId = stored (asUUID e) (b_barberId b),
      b_barberName = stored varchar_255 (b_barberName b),
      b_serviceType = stored varchar_255 (b_serviceType b),
      b_appointmentDate = stored (asDate e) (b_appointmentDate b),
      b_appointmentTime = stored (asTime e) (b_appointmentTime b),
      b_duration = stored integer_column (b_duration b),
      b_price = stored decimal_10_2 (b_price b),
      b_status = stored varchar_255 (b_status b),
      b_notes = stored text_column (b_notes b)\<rparr>"

subsection \<open>The persistence layer\<close>

text \<open>
  Sequelize's \<^verbatim>\<open>where\<close> object on the three columns the controller filters by: a column
  is compared with a value, or with a list of values (\<^verbatim>\<open>IN\<close>). The values of a
  condition on a UUID or DATEONLY column go through the column's input function, and the
  query throws when one is refused; \<^verbatim>\<open>status\<close> is a text column and takes any text.
\<close>

datatype cond = Eq string | In "string list"

record where_clause =
  w_barberId :: "cond option"
  w_appointmentDate :: "cond option"
  w_status :: "cond option"

definition no_where :: where_clause where
  "no_where = \<lparr>w_barberId = None, w_appointmentDate = None, w_status = None\<rparr>"

fun holds :: "cond option \<Rightarrow> string \<Rightarrow> bool" where
  "holds None v = True"
| "holds (Some (Eq x)) v = (v = x)"
| "holds (Some (In xs)) v = (v \<in> set xs)"

fun cond_in :: "(string \<Rightarrow> string option) \<Rightarrow> cond option \<Rightarrow> cond option option" where
  "cond_in column None = Some None"
| "cond_in column (Some (Eq x)) = map_option (\<lambda>c. Some (Eq c)) (column x)"
| "cond_in column (Some (In xs)) = map_option (\<lambda>cs. Some (In cs)) (those (map column xs))"

datatype ordering = Unordered | DateTimeDesc

text \<open>
  \<^verbatim>\<open>order: [['appointmentDate', 'DESC'], ['appointmentTime', 'DESC']]\<close>: dates and times
  in the stored forms \<^verbatim>\<open>YYYY-MM-DD\<close> and \<^verbatim>\<open>HH:MM:SS\<close> compare as their texts do.
\<close>

fun orderBy :: "ordering \<Rightarrow> reservation list \<Rightarrow> reservation list" where
  "orderBy Unordered rows = rows"
| "orderBy DateTimeDesc rows =
     rev (sort_key (\<lambda>r. (appointmentDate r, appointmentTime r)) rows)"

definition matches_where :: "where_clause \<Rightarrow> reservation \<Rightarrow> bool" where
  "matches_where w r =
     (holds (w_barberId w) (barberId r) \<and>
      holds (w_appointmentDate w) (appointmentDate r) \<and>
      holds (w_status w) (status r))"

definition findAll ::
  "env \<Rightarrow> where_clause \<Rightarrow> ordering \<Rightarrow> reservation list \<Rightarrow> error + reservation list" where
  "findAll e w ord table =
     (case cond_in (asUUID e) (w_barberId w) of
        None \<Rightarrow> Inl (SequelizeDatabaseError [''barberId''])
      | Some barber \<Rightarrow>
          (case cond_in (asDate e) (w_appointmentDate w) of
             None \<Rightarrow> Inl (SequelizeDatabaseError [''appointmentDate''])
           | Some date \<Rightarrow>
               Inr (orderBy ord
                      (filter (matches_where
                                 (w\<lparr>w_barberId := barber, w_appointmentDate := date\<rparr>))
                         table))))"

text \<open>
  \<^verbatim>\<open>Reservation.findByPk(id)\<close>: the text is read as a UUID, and the statement throws when
  it is none.
\<close>

definition findByPk :: "env \<Rightarrow> string \<Rightarrow> reservation list \<Rightarrow> error + reservation option" where
  "findByPk e pk table =
     (case asUUID e pk of
        None \<Rightarrow> Inl (SequelizeDatabaseError [''id''])
      | Some c \<Rightarrow> Inr (find (\<lambda>r. res_id r = c) table))"

text \<open>
  The validators of the model definition (\<^verbatim>\<open>allowNull: false\<close>, \<^verbatim>\<open>notEmpty\<close>, \<^verbatim>\<open>len\<close>,
  \<^verbatim>\<open>isEmail\<close>, \<^verbatim>\<open>isIn\<close>). Sequelize's \<^verbatim>\<open>notEmpty\<close> refuses a text of white space only.
  On a new row every attribute is checked, an absent one as null; on an update only the
  attributes the patch holds.
\<close>

fun nullViolation :: "bool \<Rightarrow> 'a field \<Rightarrow> bool" where
  "nullViolation creating Absent = creating"
| "nullViolation creating Null = True"
| "nullViolation creating (Val v) = False"

fun invalid :: "('a \<Rightarrow> bool) \<Rightarrow> 'a field \<Rightarrow> bool" where
  "invalid ok (Val v) = (\<not> ok v)"
| "invalid ok Absent = False"
| "invalid ok Null = False"

definition seq_notEmpty :: "string \<Rightarrow> bool" where
  "seq_notEmpty v = (\<not> list_all isSpace v)"

definition isLength :: "nat \<Rightarrow> nat \<Rightarrow> string \<Rightarrow> bool" where
  "isLength lo hi v = (lo \<le> length v \<and> length v \<le> hi)"

definition serviceTypes :: "string list" where
  "serviceTypes = [''haircut'', ''shave'', ''beard-trim'', ''full-service'']"

definition statuses :: "string list" where
  "statuses = [''pending'', ''confirmed'', ''completed'', ''cancelled'']"

definition attribute_errors :: "string \<Rightarrow> bool \<Rightarrow> ('a \<Rightarrow> bool) \<Rightarrow> 'a field \<Rightarrow> string list" where
  "attribute_errors name creating ok v =
     (if nullViolation creating v \<or> invalid ok v then [name] else [])"

definition model_validate :: "env \<Rightarrow> bool \<Rightarrow> req_body \<Rightarrow> string list" where
  "model_validate e creating b =
     attribute_errors ''id'' creating (\<lambda>v. True) (b_id b) @
     attribute_errors ''customerName'' creating
       (\<lambda>v. seq_notEmpty v \<and> isLength 2 100 v) (b_customerName b) @
     attribute_errors ''customerEmail'' creating (isEmail e) (b_customerEmail b) @
     attribute_errors ''customerPhone'' creating seq_notEmpty (b_customerPhone b) @
     attribute_errors ''barberId'' creating (\<lambda>v. True) (b_barberId b) @
     attribute_errors ''barberName'' creating (\<lambda>v. True) (b_barberName b) @
     attribute_errors ''serviceType'' creating (\<lambda>v. v \<in> set serviceTypes) (b_serviceType b) @
     attribute_errors ''appointmentDate'' creating (\<lambda>v. True) (b_appointmentDate b) @
     attribute_errors ''appointmentTime'' creating (\<lambda>v. True) (b_appointmentTime b) @
     attribute_errors ''duration'' creating (\<lambda>v. True) (b_duration b) @
     attribute_errors ''price'' creating (\<lambda>v. True) (b_price b) @
     attribute_errors ''status'' creating (\<lambda>v. v \<in> set statuses) (b_status b)"

text \<open>The defaults of the model: a generated UUID, 30 minutes, \<^verbatim>\<open>pending\<close>.\<close>

fun orDefault :: "'a \<Rightarrow> 'a field \<Rightarrow> 'a field" where
  "orDefault d Absent = Val d"
| "orDefault d Null = Null"
| "orDefault d (Val v) = Val v"

definition withDefaults :: "string \<Rightarrow> req_body \<Rightarrow> req_body" where
  "withDefaults uuidv4 b =
     b\<lparr>b_id := orDefault uuidv4 (b_id b),
       b_duration := orDefault 30 (b_duration b),
       b_status := orDefault ''pending'' (b_status b)\<rparr>"

text \<open>
  Writing the values of a body over an entity: an attribute the body does not hold keeps
  its value. The primary key of a stored row is never rewritten.
\<close>

fun assign :: "'a field \<Rightarrow> 'a \<Rightarrow> 'a" where
  "assign (Val v) old = v"
| "assign Absent old = old"
| "assign Null old = old"

fun assign_nullable :: "'a field \<Rightarrow> 'a option \<Rightarrow> 'a option" where
  "assign_nullable (Val v) old = Some v"
| "assign_nullable Null old = None"
| "assign_nullable Absent old = old"

definition set_values :: "req_body \<Rightarrow> reservation \<Rightarrow> reservation" where
  "set_values b r =
     r\<lparr>customerName := assign (b_customerName b) (customerName r),
       customerEmail := assign (b_customerEmail b) (customerEmail r),
       customerPhone := assign (b_customerPhone b) (customerPhone r),
       barberId := assign (b_barberId b) (barberId r),
       barberName := assign (b_barberName b) (barberName r),
       serviceType := assign (b_serviceType b) (serviceType r),
       appointmentDate := assign (b_appointmentDate b) (appointmentDate r),
       appointmentTime := assign (b_appointmentTime b) (appointmentTime r),
       duration := assign (b_duration b) (duration r),
       price := assign (b_price b) (price r),
       status := assign (b_status b) (status r),
       res_notes := assign_nullable (b_notes b) (res_notes r)\<rparr>"

definition blank :: "string \<Rightarrow> reservation" where
  "blank pk =
     \<lparr>res_id = pk, customerName = [], customerEmail = [], customerPhone = [],
      barberId = [], barberName = [], serviceType = [], appointmentDate = [],
      appointmentTime = [], duration = 0, price = 0, status = [], res_notes = None\<rparr>"

text \<open>
  \<^verbatim>\<open>Reservation.create(values)\<close>: build with the defaults, validate, insert. The insert
  throws when a column refuses its value, and when the table has a row with the primary
  key. The instance takes the values of the inserted row as the statement returns them.
\<close>

definition Reservation_create ::
  "env \<Rightarrow> string \<Rightarrow> req_body \<Rightarrow> reservation list \<Rightarrow> error + (reservation \<times> reservation list)" where
  "Reservation_create e uuidv4 values table =
     (let b = withDefaults uuidv4 values;
          errors = model_validate e True b
      in if errors \<noteq> [] then Inl (SequelizeValidationError errors)
         else if refused_columns e b \<noteq> [] then Inl (SequelizeDatabaseError (refused_columns e b))
         else
           (let r = set_values (as_stored e b) (blank (assign (b_id (as_stored e b)) []))
            in if find (\<lambda>x. res_id x = res_id r) table \<noteq> None
               then Inl SequelizeUniqueConstraintError
               else Inr (r, table @ [r])))"

text \<open>
  \<^verbatim>\<open>instance.update(values)\<close>: set the values (a date in Sequelize's format), validate the
  attributes that were set, write them to the rows of the instance's primary key. The
  statement throws when a column refuses its value; it returns no row, so the instance
  keeps the values that were set while the rows hold them as the columns store them.
\<close>

definition Reservation_update ::
  "env \<Rightarrow> reservation \<Rightarrow> req_body \<Rightarrow> reservation list \<Rightarrow> error + (reservation \<times> reservation list)" where
  "Reservation_update e r values table =
     (let b = values\<lparr>b_id := Absent\<rparr>;
          errors = model_validate e False b
      in if errors \<noteq> [] then Inl (SequelizeValidationError errors)
         else if refused_columns e b \<noteq> [] then Inl (SequelizeDatabaseError (refused_columns e b))
         else Inr (set_values (b\<lparr>b_appointmentDate := stored (asDate e) (b_appointmentDate b)\<rparr>) r,
                   map (\<lambda>x. if res_id x = res_id r then set_values (as_stored e b) x else x)
                     table))"

subsection \<open>The validation chain of the create route\<close>

text \<open>
  The pattern of \<^verbatim>\<open>appointmentTime\<close>,
  \<^verbatim>\<open>/^([0-1]?[0-9]|2[0-3]):[0-5][0-9]:[0-5][0-9]$/\<close>: an hour of one or two characters,
  then the six characters of minutes and seconds, up to the end of the text.
\<close>

definition isDigit :: "char \<Rightarrow> bool" where
  "isDigit c = (c \<in> set ''0123456789'')"

definition hourPattern :: "string \<Rightarrow> bool" where
  "hourPattern h =
     (case h of
        [d] \<Rightarrow> isDigit d
      | [c, d] \<Rightarrow> (c \<in> set ''01'' \<and> isDigit d) \<or> (c = CHR ''2'' \<and> d \<in> set ''0123'')
      | _ \<Rightarrow> False)"

definition minSecPattern :: "string \<Rightarrow> bool" where
  "minSecPattern t =
     (case t of
        [c1, m1, m2, c2, s1, s2] \<Rightarrow>
          c1 = CHR '':'' \<and> m1 \<in> set ''012345'' \<and> isDigit m2 \<and>
          c2 = CHR '':'' \<and> s1 \<in> set ''012345'' \<and> isDigit s2
      | _ \<Rightarrow> False)"

definition matchesTime :: "string \<Rightarrow> bool" where
  "matchesTime v =
     (hourPattern (take (length v - 6) v) \<and> minSecPattern (drop (length v - 6) v))"

text \<open>The text a validator sees: an absent or null key reads as the empty text.\<close>

fun field_str :: "string field \<Rightarrow> string" where
  "field_str Absent = []"
| "field_str Null = []"
| "field_str (Val v) = v"

definition check :: "string \<Rightarrow> bool \<Rightarrow> string list" where
  "check path ok = (if ok then [] else [path])"

text \<open>
  \<^verbatim>\<open>reservationValidation\<close>: each chain runs its validators and sanitizers in order, every
  failed validator adds one error for its path, and the sanitized values replace the
  body's.
\<close>

definition reservationValidation :: "env \<Rightarrow> req_body \<Rightarrow> string list \<times> req_body" where
  "reservationValidation e b =
     (let customerName0 = field_str (b_customerName b);
          customerName1 = trim customerName0;
          customerEmail0 = field_str (b_customerEmail b);
          customerPhone0 = field_str (b_customerPhone b);
          barberId0 = field_str (b_barberId b);
          barberName0 = field_str (b_barberName b);
          errors =
            check ''customerName'' (customerName0 \<noteq> []) @
            check ''customerName'' (isLength 2 100 customerName1) @
            check ''customerEmail'' (isEmail e customerEmail0) @
            check ''customerPhone'' (customerPhone0 \<noteq> []) @
            check ''barberId'' (barberId0 \<noteq> []) @
            check ''barberId'' (isUUID e barberId0) @
            check ''barberName'' (barberName0 \<noteq> []) @
            check ''serviceType'' (field_str (b_serviceType b) \<in> set serviceTypes) @
            check ''appointmentDate'' (isDate e (field_str (b_appointmentDate b))) @
            check ''appointmentTime'' (matchesTime (field_str (b_appointmentTime b))) @
            check ''price'' (case b_price b of Val p \<Rightarrow> isDecimal e p | _ \<Rightarrow> False)
      in (errors,
          b\<lparr>b_customerName := Val customerName1,
            b_customerEmail := Val (normalizeEmail e customerEmail0),
            b_customerPhone := Val (trim customerPhone0),
            b_barberName := Val (trim barberName0)\<rparr>))"

subsection \<open>The controller\<close>

datatype payload =
    Errors "string list"
  | Message string
  | Data "string option" reservation
  | Listing nat "reservation list"
  | Slots string string "string list"
  | Failure string string

record response =
  statusCode :: nat
  success :: bool
  json :: payload

definition respond :: "nat \<Rightarrow> bool \<Rightarrow> payload \<Rightarrow> response" where
  "respond code ok p = \<lparr>statusCode = code, success = ok, json = p\<rparr>"

text \<open>The query string of a request: the keys the handlers read.\<close>

record query =
  q_status :: "string option"
  q_date :: "string option"
  q_barberId :: "string option"

text \<open>
  The handlers. Each returns the response it sends and the state it leaves. A \<^verbatim>\<open>catch\<close>
  writes the error to the console and answers 500 with its message.

  \<^verbatim>\<open>createReservation\<close>: \<^verbatim>\<open>validationResult(req)\<close> holds the errors that the validation
  chain of the route has collected before the handler runs, and \<^verbatim>\<open>req.body\<close> the body
  with the sanitized values. The result of \<^verbatim>\<open>NotificationFactory.send\<close> is not looked at.
\<close>

definition createReservation :: "env \<Rightarrow> string \<Rightarrow> req_body \<Rightarrow> state \<Rightarrow> response \<times> state" where
  "createReservation e uuidv4 req_body s =
     (case reservationValidation e req_body of
        (errors, sanitized) \<Rightarrow>
          if errors \<noteq> [] then (respond 400 False (Errors errors), s)
          else
            (case Reservation_create e uuidv4 sanitized (reservations s) of
               Inl err \<Rightarrow>
                 (respond 500 False (Failure ''Failed to create reservation'' (message err)),
                  s\<lparr>console := console s @ [''Create reservation error: '' @ message err]\<rparr>)
             | Inr (reservation, table) \<Rightarrow>
                 (case NotificationFactory_send e ''email''
                         \<lparr>recipient = customerEmail reservation,
                          subject = ''Reservation Confirmed'',
                          body = Confirmation (customerName reservation)
                                   (serviceType reservation) (barberName reservation)
                                   (appointmentDate reservation)
                                   (appointmentTime reservation) (price reservation)\<rparr>
                         (s\<lparr>reservations := table\<rparr>) of
                    (sent, s') \<Rightarrow>
                      (respond 201 True
                         (Data (Some ''Reservation created successfully'') reservation),
                       s'))))"

definition getAllReservations :: "env \<Rightarrow> query \<Rightarrow> state \<Rightarrow> response \<times> state" where
  "getAllReservations e q s =
     (let whereClause0 = no_where;
          whereClause1 =
            (if truthy (q_status q)
             then whereClause0\<lparr>w_status := map_option Eq (q_status q)\<rparr> else whereClause0);
          whereClause2 =
            (if truthy (q_date q)
             then whereClause1\<lparr>w_appointmentDate := map_option Eq (q_date q)\<rparr>
             else whereClause1)
      in case findAll e whereClause2 DateTimeDesc (reservations s) of
           Inl err \<Rightarrow>
             (respond 500 False (Failure ''Failed to fetch reservations'' (message err)),
              s\<lparr>console := console s @ [''Get reservations error: '' @ message err]\<rparr>)
         | Inr rows \<Rightarrow> (respond 200 True (Listing (length rows) rows), s))"

definition getReservationById :: "env \<Rightarrow> string \<Rightarrow> state \<Rightarrow> response \<times> state" where
  "getReservationById e pk s =
     (case findByPk e pk (reservations s) of
        Inl err \<Rightarrow>
          (respond 500 False (Failure ''Failed to fetch reservation'' (message err)),
           s\<lparr>console := console s @ [''Get reservation error: '' @ message err]\<rparr>)
      | Inr None \<Rightarrow> (respond 404 False (Message ''Reservation not found''), s)
      | Inr (Some reservation) \<Rightarrow> (respond 200 True (Data None reservation), s))"

definition updateReservation :: "env \<Rightarrow> string \<Rightarrow> req_body \<Rightarrow> state \<Rightarrow> response \<times> state" where
  "updateReservation e pk req_body s =
     (case findByPk e pk (reservations s) of
        Inl err \<Rightarrow>
          (respond 500 False (Failure ''Failed to update reservation'' (message err)),
           s\<lparr>console := console s @ [''Update reservation error: '' @ message err]\<rparr>)
      | Inr None \<Rightarrow> (respond 404 False (Message ''Reservation not found''), s)
      | Inr (Some reservation) \<Rightarrow>
          (case Reservation_update e reservation req_body (reservations s) of
             Inl err \<Rightarrow>
               (respond 500 False (Failure ''Failed to update reservation'' (message err)),
                s\<lparr>console := console s @ [''Update reservation error: '' @ message err]\<rparr>)
           | Inr (updated, table) \<Rightarrow>
               (respond 200 True (Data (Some ''Reservation updated successfully'') updated),
                s\<lparr>reservations := table\<rparr>)))"

definition cancelReservation :: "env \<Rightarrow> string \<Rightarrow> state \<Rightarrow> response \<times> state" where
  "cancelReservation e pk s =
     (case findByPk e pk (reservations s) of
        Inl err \<Rightarrow>
          (respond 500 False (Failure ''Failed to cancel reservation'' (message err)),
           s\<lparr>console := console s @ [''Cancel reservation error: '' @ message err]\<rparr>)
      | Inr None \<Rightarrow> (respond 404 False (Message ''Reservation not found''), s)
      | Inr (Some reservation) \<Rightarrow>
          (case Reservation_update e reservation (empty_body\<lparr>b_status := Val ''cancelled''\<rparr>)
                  (reservations s) of
             Inl err \<Rightarrow>
               (respond 500 False (Failure ''Failed to cancel reservation'' (message err)),
                s\<lparr>console := console s @ [''Cancel reservation error: '' @ message err]\<rparr>)
           | Inr (updated, table) \<Rightarrow>
               (case NotificationFactory_send e ''email''
                       \<lparr>recipient = customerEmail updated,
                        subject = ''Reservation Cancelled'',
                        body = Cancellation (customerName updated)\<rparr>
                       (s\<lparr>reservations := table\<rparr>) of
                  (sent, s') \<Rightarrow>
                    (respond 200 True
                       (Data (Some ''Reservation cancelled successfully'') updated),
                     s'))))"

text \<open>
  \<^verbatim>\<open>getAvailableSlots\<close> reaches the grid through \<^verbatim>\<open>this.generateTimeSlots()\<close>. What
  \<^verbatim>\<open>this\<close> is depends on how the function is called: the class when it is called as
  \<^verbatim>\<open>ReservationController.getAvailableSlots(req, res)\<close>, \<^verbatim>\<open>undefined\<close> when the function
  value is called on its own (the body of a class is strict code). Reading a property
  of \<^verbatim>\<open>undefined\<close> throws a TypeError, which the handler's \<^verbatim>\<open>catch\<close> turns into the 500
  response.
\<close>

datatype this_value = Undefined | ReservationController

definition this_generateTimeSlots :: "this_value \<Rightarrow> error + string list" where
  "this_generateTimeSlots this =
     (case this of
        Undefined \<Rightarrow>
          Inl (TypeError
                 ''Cannot read properties of undefined (reading 'generateTimeSlots')'')
      | ReservationController \<Rightarrow> Inr generateTimeSlots)"

definition getAvailableSlots ::
  "env \<Rightarrow> this_value \<Rightarrow> query \<Rightarrow> state \<Rightarrow> response \<times> state" where
  "getAvailableSlots e this q s =
     (if \<not> truthy (q_barberId q) \<or> \<not> truthy (q_date q)
      then (respond 400 False (Message ''Barber ID and date are required''), s)
      else
        (case findAll e \<lparr>w_barberId = map_option Eq (q_barberId q),
                          w_appointmentDate = map_option Eq (q_date q),
                          w_status = Some (In [''pending'', ''confirmed''])\<rparr>
                Unordered (reservations s) of
           Inl err \<Rightarrow>
             (respond 500 False (Failure ''Failed to fetch available slots'' (message err)),
              s\<lparr>console := console s @ [''Get slots error: '' @ message err]\<rparr>)
         | Inr existingReservations \<Rightarrow>
             (case this_generateTimeSlots this of
                Inl err \<Rightarrow>
                  (respond 500 False
                     (Failure ''Failed to fetch available slots'' (message err)),
                   s\<lparr>console := console s @ [''Get slots error: '' @ message err]\<rparr>)
              | Inr allSlots \<Rightarrow>
                  (let bookedTimes = map appointmentTime existingReservations;
                       availableSlots = filter (\<lambda>slot. slot \<notin> set bookedTimes) allSlots
                   in (respond 200 True
                         (Slots (the (q_date q)) (the (q_barberId q)) availableSlots),
                       s)))))"

subsection \<open>The routes\<close>

text \<open>
  The route table of \<^verbatim>\<open>app.js\<close>. Each handler is registered as a function value,
  \<^verbatim>\<open>app.get('/api/available-slots', ReservationController.getAvailableSlots)\<close>, and
  Express calls a handler as \<^verbatim>\<open>fn(req, res, next)\<close>, with no receiver: inside a handler
  \<^verbatim>\<open>this\<close> is \<^verbatim>\<open>undefined\<close>.
\<close>

datatype request =
    POST_reservations req_body
  | GET_reservations query
  | GET_reservation string
  | PUT_reservation string req_body
  | DELETE_reservation string
  | GET_available_slots query

definition app :: "env \<Rightarrow> string \<Rightarrow> request \<Rightarrow> state \<Rightarrow> response \<times> state" where
  "app e uuidv4 req s =
     (case req of
        POST_reservations req_body \<Rightarrow> createReservation e uuidv4 req_body s
      | GET_reservations q \<Rightarrow> getAllReservations e q s
      | GET_reservation pk \<Rightarrow> getReservationById e pk s
      | PUT_reservation pk req_body \<Rightarrow> updateReservation e pk req_body s
      | DELETE_reservation pk \<Rightarrow> cancelReservation e pk s
      | GET_available_slots q \<Rightarrow> getAvailableSlots e Undefined q s)"

text \<open>
  The keys of a response that the properties read: the entity (\<^verbatim>\<open>res.body.data\<close> in the
  tests), when the response carries one, and the \<^verbatim>\<open>message\<close>.
\<close>

definition data_of :: "response \<Rightarrow> reservation option" where
  "data_of res = (case json res of Data msg r \<Rightarrow> Some r | _ \<Rightarrow> None)"

definition message_of :: "response \<Rightarrow> string option" where
  "message_of res =
     (case json res of
        Message m \<Rightarrow> Some m
      | Data msg r \<Rightarrow> msg
      | Failure m err \<Rightarrow> Some m
      | _ \<Rightarrow> None)"

subsection \<open>The service table of the booking form\<close>

text \<open>
  \<^verbatim>\<open>services\<close> of \<^verbatim>\<open>frontend/src/App.jsx\<close>: value, price, duration in minutes. The
  backend holds no such table.
\<close>

definition services :: "(string \<times> rat \<times> int) list" where
  "services =
     [(''haircut'', 25, 30), (''shave'', 15, 20), (''beard-trim'', 20, 25),
      (''full-service'', 45, 60)]"

subsection \<open>The grid as the specification words it\<close>

text \<open>
  The slot that starts \<open>m\<close> minutes after midnight, as \<^verbatim>\<open>HH:MM:SS\<close>. The specification's
  grid is one slot every 30 minutes from 09:00:00 (minute 540) up to but not including
  18:00:00 (minute 1080).
\<close>

definition slot_of_minute :: "nat \<Rightarrow> string" where
  "slot_of_minute m =
     padStart 2 ''0'' (toString (m div 60)) @ '':'' @
     padStart 2 ''0'' (toString (m mod 60)) @ '':00''"

subsection \<open>Data of the test suite\<close>

text \<open>
  The request body of the first test of \<^verbatim>\<open>tests/reservation.test.js\<close>, a row as that
  request creates it, the identifier that the tests use for a reservation that does not
  exist, and two identifiers for rows.
\<close>

definition example_body :: req_body where
  "example_body =
     \<lparr>b_id = Absent, b_customerName = Val ''John Doe'',
      b_customerEmail = Val ''john@example.com'', b_customerPhone = Val ''+1234567890'',
      b_barberId = Val ''123e4567-e89b-12d3-a456-426614174000'',
      b_barberName = Val ''John Smith'', b_serviceType = Val ''haircut'',
      b_appointmentDate = Val ''2025-12-25'', b_appointmentTime = Val ''10:00:00'',
      b_duration = Val 30, b_price = Val 25, b_status = Absent, b_notes = Absent\<rparr>"

definition example_row :: "string \<Rightarrow> string \<Rightarrow> string \<Rightarrow> reservation" where
  "example_row pk time st =
     \<lparr>res_id = pk, customerName = ''John Doe'', customerEmail = ''john@example.com'',
      customerPhone = ''+1234567890'', barberId = ''123e4567-e89b-12d3-a456-426614174000'',
      barberName = ''John Smith'', serviceType = ''haircut'',
      appointmentDate = ''2025-12-25'', appointmentTime = time, duration = 30, price = 25,
      status = st, res_notes = None\<rparr>"

definition fake_id :: string where
  "fake_id = ''123e4567-e89b-12d3-a456-426614174999''"

definition first_id :: string where
  "first_id = ''0a1b2c3d-0001-4000-8000-000000000001''"

definition second_id :: string where
  "second_id = ''0a1b2c3d-0002-4000-8000-000000000002''"

text \<open>
  An environment for the closed examples. Its functions are stand-ins that do what the
  libraries and the database do on the texts of the examples: a text with \<^verbatim>\<open>@\<close> is an
  e-mail address and is left as it is, a text of the shape of a canonical UUID is a UUID
  and is stored as it is, a text of the shape \<^verbatim>\<open>YYYY-MM-DD\<close> is a date and is stored as
  it is, a time that matches the pattern of the validation chain is stored with a
  two-digit hour, every number is a decimal, and every mail is sent.
\<close>

definition hex_shape :: "string \<Rightarrow> string" where
  "hex_shape v = map (\<lambda>c. if c \<in> set ''0123456789abcdef'' then CHR ''x'' else c) v"

definition digit_shape :: "string \<Rightarrow> string" where
  "digit_shape v = map (\<lambda>c. if isDigit c then CHR ''d'' else c) v"

definition uuid_shaped :: "string \<Rightarrow> bool" where
  "uuid_shaped v = (hex_shape v = ''xxxxxxxx-xxxx-xxxx-xxxx-xxxxxxxxxxxx'')"

definition date_shaped :: "string \<Rightarrow> bool" where
  "date_shaped v = (digit_shape v = ''dddd-dd-dd'')"

definition example_env :: env where
  "example_env =
     \<lparr>isEmail = (\<lambda>v. CHR ''@'' \<in> set v), normalizeEmail = (\<lambda>v. v),
      isUUID = uuid_shaped, isDate = date_shaped,
      isDecimal = (\<lambda>p. True), sendMail = (\<lambda>d. Inr ''message-1''),
      asUUID = (\<lambda>v. if uuid_shaped v then Some v else None),
      asDate = (\<lambda>v. if date_shaped v then Some v else None),
      asTime = (\<lambda>v. if matchesTime v then Some (padStart 8 ''0'' v) else None)\<rparr>"

definition example_state :: "reservation list \<Rightarrow> state" where
  "example_state table = \<lparr>reservations = table, outbox = [], console = []\<rparr>"

definition example_query :: query where
  "example_query =
     \<lparr>q_status = None, q_date = Some ''2025-12-25'',
      q_barberId = Some ''123e4567-e89b-12d3-a456-426614174000''\<rparr>"

text \<open>
  What the libraries and the database do on the texts of \<open>example_body\<close>: the address is
  an e-mail address that normalisation leaves as it is, the barber's identifier is a
  UUID in its stored form, the date is a date in its stored form, the time is a time in
  its stored form, and 25 is a decimal.
\<close>

definition accepts_example :: "env \<Rightarrow> bool" where
  "accepts_example e =
     (isEmail e ''john@example.com'' \<and>
      normalizeEmail e ''john@example.com'' = ''john@example.com'' \<and>
      isUUID e ''123e4567-e89b-12d3-a456-426614174000'' \<and>
      isDate e ''2025-12-25'' \<and>
      isDecimal e 25 \<and>
      asUUID e ''123e4567-e89b-12d3-a456-426614174000'' =
        Some ''123e4567-e89b-12d3-a456-426614174000'' \<and>
      asDate e ''2025-12-25'' = Some ''2025-12-25'' \<and>
      asTime e ''10:00:00'' = Some ''10:00:00'')"

section \<open>Properties\<close>

subsection \<open>The slot grid\<close>

lemma toString_digit: "n < 10 \<Longrightarrow> toString n = [digit_char n]"
  by (simp add: toString.simps)

lemma toString_two_digits:
  "10 \<le> n \<Longrightarrow> n < 100 \<Longrightarrow> toString n = [digit_char (n div 10), digit_char (n mod 10)]"
  by (subst toString.simps) (simp add: toString_digit)

lemma hour_9: "padStart 2 ''0'' (toString 9) = ''09''"
  by (simp add: padStart_def toString_digit digit_char_def)

lemma hour_10_17:
  "10 \<le> n \<Longrightarrow> n < 18 \<Longrightarrow>
   padStart 2 ''0'' (toString n) = [digit_char (n div 10), digit_char (n mod 10)]"
  by (simp add: padStart_def toString_two_digits)

lemma generateTimeSlots_value:
  "generateTimeSlots =
     [''09:00:00'', ''09:30:00'', ''10:00:00'', ''10:30:00'', ''11:00:00'', ''11:30:00'',
      ''12:00:00'', ''12:30:00'', ''13:00:00'', ''13:30:00'', ''14:00:00'', ''14:30:00'',
      ''15:00:00'', ''15:30:00'', ''16:00:00'', ''16:30:00'', ''17:00:00'', ''17:30:00'']"
  unfolding generateTimeSlots_def
  apply (subst generateTimeSlots_loop.simps, simp add: hour_9)
  apply (subst generateTimeSlots_loop.simps, simp add: hour_10_17 digit_char_def)
  apply (subst generateTimeSlots_loop.simps, simp add: hour_10_17 digit_char_def)
  apply (subst generateTimeSlots_loop.simps, simp add: hour_10_17 digit_char_def)
  apply (subst generateTimeSlots_loop.simps, simp add: hour_10_17 digit_char_def)
  apply (subst generateTimeSlots_loop.simps, simp add: hour_10_17 digit_char_def)
  apply (subst generateTimeSlots_loop.simps, simp add: hour_10_17 digit_char_def)
  apply (subst generateTimeSlots_loop.simps, simp add: hour_10_17 digit_char_def)
  apply (subst generateTimeSlots_loop.simps, simp add: hour_10_17 digit_char_def)
  apply (subst generateTimeSlots_loop.simps, simp)
  done

lemma upt_18: "[0..<18] = [0, 1, 2, 3, 4, 5, 6, 7, 8, 9, 10, 11, 12, 13, 14, 15, 16, 17 :: nat]"
  by (simp add: upt_rec)

lemma grid_by_minutes:
  "map (\<lambda>k. slot_of_minute (540 + 30 * k)) [0..<18] = generateTimeSlots"
  by (simp add: generateTimeSlots_value upt_18 slot_of_minute_def padStart_def
      toString_digit toString_two_digits digit_char_def)

lemma grid_ascending: "sorted_wrt (<) generateTimeSlots"
  by (simp add: generateTimeSlots_value)

lemma grid_format: "list_all (\<lambda>v. length v = 8 \<and> matchesTime v) generateTimeSlots"
  by (simp add: generateTimeSlots_value matchesTime_def hourPattern_def minSecPattern_def
      isDigit_def)

text \<open>
  Claim C2. The grid that \<^verbatim>\<open>generateTimeSlots\<close> builds takes no barber and no date; it is
  the 18 times 09:00:00, 09:30:00, ..., 17:30:00: one every 30 minutes from minute 540
  of the day up to but not including minute 1080, in ascending order, each eight
  characters long in the form HH:MM:SS with a two-digit hour.
\<close>

theorem generateTimeSlots_grid:
  "generateTimeSlots =
     [''09:00:00'', ''09:30:00'', ''10:00:00'', ''10:30:00'', ''11:00:00'', ''11:30:00'',
      ''12:00:00'', ''12:30:00'', ''13:00:00'', ''13:30:00'', ''14:00:00'', ''14:30:00'',
      ''15:00:00'', ''15:30:00'', ''16:00:00'', ''16:30:00'', ''17:00:00'', ''17:30:00'']
   \<and> length generateTimeSlots = 18
   \<and> generateTimeSlots = map (\<lambda>k. slot_of_minute (540 + 30 * k)) [0..<18]
   \<and> sorted_wrt (<) generateTimeSlots
   \<and> list_all (\<lambda>v. length v = 8 \<and> matchesTime v) generateTimeSlots"
proof -
  have "length generateTimeSlots = 18"
    by (simp add: generateTimeSlots_value)
  then show ?thesis
    using generateTimeSlots_value grid_by_minutes grid_ascending grid_format by metis
qed

subsection \<open>Cancelling\<close>

lemma createNotification_email: "createNotification ''email'' = Inr EmailNotification"
  by (simp add: createNotification_def toLowerCase_def lower_char_def)

lemma send_email:
  "NotificationFactory_send e ''email'' d s = notification_send e EmailNotification d s"
  by (simp add: NotificationFactory_send_def createNotification_email)

lemma send_email_reservations:
  "reservations (snd (NotificationFactory_send e ''email'' d s)) = reservations s"
  by (simp add: send_email split: sum.split)

lemma send_email_outbox:
  "outbox (snd (NotificationFactory_send e ''email'' d s)) = outbox s @ [d]"
  by (simp add: send_email split: sum.split)

lemma varchar_cancelled: "varchar_255 ''cancelled'' = Some ''cancelled''"
  by (simp add: varchar_255_def)

lemma cancel_patch_valid:
  "model_validate e False (empty_body\<lparr>b_status := Val ''cancelled'', b_id := Absent\<rparr>) = []"
  by (simp add: model_validate_def empty_body_def attribute_errors_def statuses_def)

lemma cancel_patch_accepted:
  "refused_columns e (empty_body\<lparr>b_status := Val ''cancelled'', b_id := Absent\<rparr>) = []"
  by (simp add: refused_columns_def empty_body_def column_errors_def varchar_cancelled)

lemma cancel_patch_sets_status:
  "set_values (empty_body\<lparr>b_status := Val ''cancelled'', b_id := Absent\<rparr>) r
     = r\<lparr>status := ''cancelled''\<rparr>"
  "set_values (as_stored e (empty_body\<lparr>b_status := Val ''cancelled'', b_id := Absent\<rparr>)) r
     = r\<lparr>status := ''cancelled''\<rparr>"
  by (simp_all add: set_values_def empty_body_def as_stored_def varchar_cancelled)

lemma Reservation_update_cancel:
  "Reservation_update e r (empty_body\<lparr>b_status := Val ''cancelled''\<rparr>) table =
     Inr (r\<lparr>status := ''cancelled''\<rparr>,
          map (\<lambda>x. if res_id x = res_id r then x\<lparr>status := ''cancelled''\<rparr> else x) table)"
  by (simp add: Reservation_update_def Let_def cancel_patch_valid cancel_patch_accepted
      cancel_patch_sets_status)
     (simp add: set_values_def empty_body_def)

lemma findByPk_found_id:
  "findByPk e pk table = Inr (Some r) \<Longrightarrow> asUUID e pk = Some (res_id r)"
  by (auto simp: findByPk_def find_Some_iff split: option.splits)

lemma findByPk_found_row:
  "findByPk e pk table = Inr (Some r) \<Longrightarrow> find (\<lambda>x. res_id x = res_id r) table = Some r"
  by (auto simp: findByPk_def find_Some_iff split: option.splits)

lemma find_map_id:
  "(\<And>x. res_id (f x) = res_id x) \<Longrightarrow>
   find (\<lambda>x. res_id x = c) (map f table) = map_option f (find (\<lambda>x. res_id x = c) table)"
  by (induction table) auto

lemma findByPk_map:
  "(\<And>x. res_id (f x) = res_id x) \<Longrightarrow>
   findByPk e pk (map f table) = map_sum id (map_option f) (findByPk e pk table)"
  by (simp add: findByPk_def find_map_id split: option.split)

lemma cancelReservation_refused:
  "findByPk e pk (reservations s) = Inl err \<Longrightarrow>
   cancelReservation e pk s =
     (respond 500 False (Failure ''Failed to cancel reservation'' (message err)),
      s\<lparr>console := console s @ [''Cancel reservation error: '' @ message err]\<rparr>)"
  by (simp add: cancelReservation_def)

lemma cancelReservation_missing:
  "findByPk e pk (reservations s) = Inr None \<Longrightarrow>
   cancelReservation e pk s = (respond 404 False (Message ''Reservation not found''), s)"
  by (simp add: cancelReservation_def)

lemma cancelReservation_found:
  "findByPk e pk (reservations s) = Inr (Some r) \<Longrightarrow>
   cancelReservation e pk s =
     (respond 200 True (Data (Some ''Reservation cancelled successfully'') (r\<lparr>status := ''cancelled''\<rparr>)),
      snd (NotificationFactory_send e ''email''
             \<lparr>recipient = customerEmail r, subject = ''Reservation Cancelled'',
              body = Cancellation (customerName r)\<rparr>
             (s\<lparr>reservations :=
                  map (\<lambda>x. if res_id x = res_id r then x\<lparr>status := ''cancelled''\<rparr> else x)
                    (reservations s)\<rparr>)))"
  by (simp add: cancelReservation_def Reservation_update_cancel split: prod.split)

lemma cancelReservation_table:
  "findByPk e pk (reservations s) = Inr (Some r) \<Longrightarrow>
   reservations (snd (cancelReservation e pk s)) =
     map (\<lambda>x. if res_id x = res_id r then x\<lparr>status := ''cancelled''\<rparr> else x) (reservations s)"
  by (simp add: cancelReservation_found send_email_reservations)

lemma cancelReservation_stored:
  assumes "findByPk e pk (reservations s) = Inr (Some r)"
  shows "findByPk e pk (reservations (snd (cancelReservation e pk s))) =
           Inr (Some (r\<lparr>status := ''cancelled''\<rparr>))"
proof -
  let ?f = "\<lambda>x. if res_id x = res_id r then x\<lparr>status := ''cancelled''\<rparr> else x"
  have "findByPk e pk (map ?f (reservations s)) =
          map_sum id (map_option ?f) (findByPk e pk (reservations s))"
    by (rule findByPk_map) simp
  then show ?thesis
    by (simp add: cancelReservation_table [OF assms] assms)
qed

lemma example_ids:
  "asUUID example_env fake_id = Some fake_id"
  "asUUID example_env first_id = Some first_id"
  "asUUID example_env second_id = Some second_id"
  "asUUID example_env ''not-a-uuid'' = None"
  "first_id \<noteq> second_id" "first_id \<noteq> fake_id" "second_id \<noteq> fake_id"
  "second_id \<noteq> first_id" "fake_id \<noteq> first_id" "fake_id \<noteq> second_id"
  by (simp_all add: example_env_def uuid_shaped_def hex_shape_def fake_id_def first_id_def
      second_id_def)

text \<open>
  Claim C3, as amended. A cancel request whose identifier is a UUID that no row of the
  table has answers 404 with \<^verbatim>\<open>success: false\<close> and leaves the state as it was. For an
  identifier that a row \<open>r\<close> has, whatever the status of \<open>r\<close> was (\<^verbatim>\<open>cancelled\<close> included),
  the answer is 200 with the entity \<open>r\<close> whose status is now \<^verbatim>\<open>cancelled\<close>, the table
  holds that entity under the identifier, and one cancellation mail to the customer has
  been handed to the transport. For an identifier that the UUID key refuses the lookup
  throws: the answer is 500 with \<^verbatim>\<open>Failed to cancel reservation\<close>, no row changes and no
  mail is sent.
\<close>

theorem cancelReservation_outcome:
  "(findByPk e pk (reservations s) = Inl err \<longrightarrow>
      statusCode (fst (cancelReservation e pk s)) = 500
      \<and> \<not> success (fst (cancelReservation e pk s))
      \<and> message_of (fst (cancelReservation e pk s)) = Some ''Failed to cancel reservation''
      \<and> reservations (snd (cancelReservation e pk s)) = reservations s
      \<and> outbox (snd (cancelReservation e pk s)) = outbox s)
   \<and> (findByPk e pk (reservations s) = Inr None \<longrightarrow>
      cancelReservation e pk s = (respond 404 False (Message ''Reservation not found''), s))
   \<and> (findByPk e pk (reservations s) = Inr (Some r) \<longrightarrow>
        fst (cancelReservation e pk s) =
          respond 200 True
            (Data (Some ''Reservation cancelled successfully'') (r\<lparr>status := ''cancelled''\<rparr>))
        \<and> findByPk e pk (reservations (snd (cancelReservation e pk s))) =
            Inr (Some (r\<lparr>status := ''cancelled''\<rparr>))
        \<and> outbox (snd (cancelReservation e pk s)) =
            outbox s @ [\<lparr>recipient = customerEmail r, subject = ''Reservation Cancelled'',
                         body = Cancellation (customerName r)\<rparr>])"
proof (intro conjI impI)
  assume "findByPk e pk (reservations s) = Inl err"
  note eq = cancelReservation_refused [OF this]
  show "statusCode (fst (cancelReservation e pk s)) = 500"
    and "\<not> success (fst (cancelReservation e pk s))"
    and "message_of (fst (cancelReservation e pk s)) = Some ''Failed to cancel reservation''"
    and "reservations (snd (cancelReservation e pk s)) = reservations s"
    and "outbox (snd (cancelReservation e pk s)) = outbox s"
    by (simp_all add: eq respond_def message_of_def)
next
  assume "findByPk e pk (reservations s) = Inr None"
  then show "cancelReservation e pk s = (respond 404 False (Message ''Reservation not found''), s)"
    by (rule cancelReservation_missing)
next
  assume found: "findByPk e pk (reservations s) = Inr (Some r)"
  note eq = cancelReservation_found [OF found]
  show "fst (cancelReservation e pk s) =
          respond 200 True
            (Data (Some ''Reservation cancelled successfully'') (r\<lparr>status := ''cancelled''\<rparr>))"
    by (simp add: eq)
  show "findByPk e pk (reservations (snd (cancelReservation e pk s))) =
            Inr (Some (r\<lparr>status := ''cancelled''\<rparr>))"
    using found by (rule cancelReservation_stored)
  show "outbox (snd (cancelReservation e pk s)) =
            outbox s @ [\<lparr>recipient = customerEmail r, subject = ''Reservation Cancelled'',
                         body = Cancellation (customerName r)\<rparr>]"
    by (simp add: eq send_email_outbox)
qed

theorem cancelReservation_outcome_witness:
  "statusCode (fst (cancelReservation example_env ''not-a-uuid''
      (example_state [example_row first_id ''10:00:00'' ''cancelled'']))) = 500
   \<and> cancelReservation example_env fake_id
        (example_state [example_row first_id ''10:00:00'' ''cancelled''])
     = (respond 404 False (Message ''Reservation not found''),
        example_state [example_row first_id ''10:00:00'' ''cancelled''])
   \<and> fst (cancelReservation example_env first_id
            (example_state [example_row first_id ''10:00:00'' ''cancelled'']))
     = respond 200 True
         (Data (Some ''Reservation cancelled successfully'')
            (example_row first_id ''10:00:00'' ''cancelled''))
   \<and> outbox (snd (cancelReservation example_env first_id
            (example_state [example_row first_id ''10:00:00'' ''cancelled''])))
     = [\<lparr>recipient = ''john@example.com'', subject = ''Reservation Cancelled'',
         body = Cancellation ''John Doe''\<rparr>]"
proof -
  let ?s = "example_state [example_row first_id ''10:00:00'' ''cancelled'']"
  have refused: "findByPk example_env ''not-a-uuid'' (reservations ?s) =
      Inl (SequelizeDatabaseError [''id''])"
    by (simp add: findByPk_def example_ids)
  have missing: "findByPk example_env fake_id (reservations ?s) = Inr None"
    by (simp add: findByPk_def example_ids example_state_def example_row_def)
  have found: "findByPk example_env first_id (reservations ?s) =
      Inr (Some (example_row first_id ''10:00:00'' ''cancelled''))"
    by (simp add: findByPk_def example_ids example_state_def example_row_def)
  note a = cancelReservation_outcome
      [where e = example_env and pk = "''not-a-uuid''" and s = ?s
         and err = "SequelizeDatabaseError [''id'']", THEN conjunct1, rule_format, OF refused]
  note b = cancelReservation_outcome
      [where e = example_env and pk = fake_id and s = ?s,
       THEN conjunct2, THEN conjunct1, rule_format, OF missing]
  note c = cancelReservation_outcome
      [where e = example_env and pk = first_id and s = ?s
         and r = "example_row first_id ''10:00:00'' ''cancelled''",
       THEN conjunct2, THEN conjunct2, rule_format, OF found]
  have row: "(example_row first_id ''10:00:00'' ''cancelled'')\<lparr>status := ''cancelled''\<rparr>
      = example_row first_id ''10:00:00'' ''cancelled''"
    and mail: "customerEmail (example_row first_id ''10:00:00'' ''cancelled'') = ''john@example.com''"
      "customerName (example_row first_id ''10:00:00'' ''cancelled'') = ''John Doe''"
    and box: "outbox ?s = []"
    by (simp_all add: example_row_def example_state_def)
  show ?thesis
    using a b c by (simp add: row mail box)
qed

text \<open>
  Claim C3 as stated, for every identifier, fails at a text that is not a UUID: no row
  has the identifier \<^verbatim>\<open>not-a-uuid\<close>, and the answer is 500, not 404.
\<close>

theorem cancelReservation_not_uuid_counterexample:
  "find (\<lambda>r. res_id r = ''not-a-uuid'')
     (reservations (example_state [example_row first_id ''10:00:00'' ''pending''])) = None
   \<and> statusCode (fst (cancelReservation example_env ''not-a-uuid''
        (example_state [example_row first_id ''10:00:00'' ''pending'']))) = 500
   \<and> message_of (fst (cancelReservation example_env ''not-a-uuid''
        (example_state [example_row first_id ''10:00:00'' ''pending''])))
      = Some ''Failed to cancel reservation''"
  by (simp add: cancelReservation_def findByPk_def example_ids respond_def message_of_def)
     (simp add: example_state_def example_row_def first_id_def)

text \<open>
  Claim C9. Cancelling an existing reservation \<open>r\<close> changes its status and nothing else:
  the entity of the response and the row stored under the identifier agree with \<open>r\<close> on
  id, customerName, customerEmail, customerPhone, barberId, barberName, serviceType,
  appointmentDate, appointmentTime, duration, price and notes, and every row of the table
  with another identifier is the row it was.
\<close>

theorem cancelReservation_frame:
  assumes "findByPk e pk (reservations s) = Inr (Some r)"
  shows "\<exists>r'. json (fst (cancelReservation e pk s)) =
                 Data (Some ''Reservation cancelled successfully'') r'
          \<and> res_id r' = res_id r \<and> customerName r' = customerName r
          \<and> customerEmail r' = customerEmail r \<and> customerPhone r' = customerPhone r
          \<and> barberId r' = barberId r \<and> barberName r' = barberName r
          \<and> serviceType r' = serviceType r \<and> appointmentDate r' = appointmentDate r
          \<and> appointmentTime r' = appointmentTime r \<and> duration r' = duration r
          \<and> price r' = price r \<and> res_notes r' = res_notes r
          \<and> findByPk e pk (reservations (snd (cancelReservation e pk s))) = Inr (Some r')
          \<and> reservations (snd (cancelReservation e pk s)) =
              map (\<lambda>x. if res_id x = res_id r then x\<lparr>status := ''cancelled''\<rparr> else x)
                (reservations s)"
proof -
  have resp: "json (fst (cancelReservation e pk s)) =
      Data (Some ''Reservation cancelled successfully'') (r\<lparr>status := ''cancelled''\<rparr>)"
    by (simp add: cancelReservation_found [OF assms] respond_def)
  show ?thesis
    apply (rule exI [of _ "r\<lparr>status := ''cancelled''\<rparr>"])
    apply (intro conjI)
                 apply (simp_all add: resp)
     apply (rule cancelReservation_stored [OF assms])
    apply (rule cancelReservation_table [OF assms])
    done
qed

theorem cancelReservation_frame_witness:
  "reservations (snd (cancelReservation example_env second_id
      (example_state [example_row first_id ''09:00:00'' ''confirmed'',
                      example_row second_id ''10:00:00'' ''pending''])))
   = [example_row first_id ''09:00:00'' ''confirmed'',
      example_row second_id ''10:00:00'' ''cancelled'']"
proof -
  let ?s = "example_state [example_row first_id ''09:00:00'' ''confirmed'',
                           example_row second_id ''10:00:00'' ''pending'']"
  have found: "findByPk example_env second_id (reservations ?s) =
      Inr (Some (example_row second_id ''10:00:00'' ''pending''))"
    by (simp add: findByPk_def example_ids example_state_def example_row_def)
  from cancelReservation_frame [OF found]
  have "reservations (snd (cancelReservation example_env second_id ?s)) =
      map (\<lambda>x. if res_id x = res_id (example_row second_id ''10:00:00'' ''pending'')
                then x\<lparr>status := ''cancelled''\<rparr> else x) (reservations ?s)"
    by blast
  then show ?thesis
    by (simp add: example_state_def example_row_def example_ids)
qed

subsection \<open>Notification failures\<close>

lemma model_validate_sendMail:
  "model_validate (e\<lparr>sendMail := m\<rparr>) creating b = model_validate e creating b"
  by (simp add: model_validate_def)

lemma reservationValidation_sendMail:
  "reservationValidation (e\<lparr>sendMail := m\<rparr>) b = reservationValidation e b"
  by (simp add: reservationValidation_def Let_def cong: field.case_cong)

lemma columns_sendMail:
  "refused_columns (e\<lparr>sendMail := m\<rparr>) b = refused_columns e b"
  "as_stored (e\<lparr>sendMail := m\<rparr>) b = as_stored e b"
  by (simp_all add: refused_columns_def as_stored_def)

lemma Reservation_create_sendMail:
  "Reservation_create (e\<lparr>sendMail := m\<rparr>) u b t = Reservation_create e u b t"
  by (simp add: Reservation_create_def Let_def model_validate_sendMail columns_sendMail)

lemma Reservation_update_sendMail:
  "Reservation_update (e\<lparr>sendMail := m\<rparr>) r b t = Reservation_update e r b t"
  by (simp add: Reservation_update_def Let_def model_validate_sendMail columns_sendMail)

lemma findByPk_sendMail:
  "findByPk (e\<lparr>sendMail := m\<rparr>) pk t = findByPk e pk t"
  by (simp add: findByPk_def)

lemma send_email_keeps_table:
  "NotificationFactory_send e ''email'' d s = (sent, s') \<Longrightarrow> reservations s' = reservations s"
  using send_email_reservations [of e d s] by simp

lemma createReservation_response:
  "fst (createReservation e uuid b s) =
     (case reservationValidation e b of
        (errors, sanitized) \<Rightarrow>
          if errors \<noteq> [] then respond 400 False (Errors errors)
          else (case Reservation_create e uuid sanitized (reservations s) of
                  Inl err \<Rightarrow> respond 500 False (Failure ''Failed to create reservation'' (message err))
                | Inr (r, table) \<Rightarrow>
                    respond 201 True (Data (Some ''Reservation created successfully'') r)))"
  by (simp add: createReservation_def split: prod.split sum.split)

lemma createReservation_table:
  "reservations (snd (createReservation e uuid b s)) =
     (case reservationValidation e b of
        (errors, sanitized) \<Rightarrow>
          if errors \<noteq> [] then reservations s
          else (case Reservation_create e uuid sanitized (reservations s) of
                  Inl err \<Rightarrow> reservations s
                | Inr (r, table) \<Rightarrow> table))"
  by (auto simp: createReservation_def split: prod.split sum.split dest: send_email_keeps_table)

lemma cancelReservation_response:
  "fst (cancelReservation e pk s) =
     (case findByPk e pk (reservations s) of
        Inl err \<Rightarrow> respond 500 False (Failure ''Failed to cancel reservation'' (message err))
      | Inr None \<Rightarrow> respond 404 False (Message ''Reservation not found'')
      | Inr (Some r) \<Rightarrow>
          respond 200 True
            (Data (Some ''Reservation cancelled successfully'') (r\<lparr>status := ''cancelled''\<rparr>)))"
  by (simp add: cancelReservation_refused cancelReservation_missing cancelReservation_found
      split: sum.split option.split)

lemma cancelReservation_table_cases:
  "reservations (snd (cancelReservation e pk s)) =
     (case findByPk e pk (reservations s) of
        Inl err \<Rightarrow> reservations s
      | Inr None \<Rightarrow> reservations s
      | Inr (Some r) \<Rightarrow>
          map (\<lambda>x. if res_id x = res_id r then x\<lparr>status := ''cancelled''\<rparr> else x)
            (reservations s))"
  by (simp add: cancelReservation_refused cancelReservation_missing cancelReservation_table
      split: sum.split option.split)

text \<open>
  Claim C6. What the mail transport does never reaches the caller. Putting any transport
  \<open>m\<close> (one that throws on every mail, say) in the place of the environment's leaves the
  response and the table of a create and of a cancel as they were; whenever the
  validation passes and the row is inserted the response is 201 with that row, and
  the table keeps it; whenever the identifier is found a cancel answers 200 with the
  cancelled entity and the table keeps the cancellation.
\<close>

theorem notification_failure_not_surfaced:
  "fst (createReservation (e\<lparr>sendMail := m\<rparr>) uuid b s) = fst (createReservation e uuid b s)
   \<and> reservations (snd (createReservation (e\<lparr>sendMail := m\<rparr>) uuid b s)) =
       reservations (snd (createReservation e uuid b s))
   \<and> fst (cancelReservation (e\<lparr>sendMail := m\<rparr>) pk s) = fst (cancelReservation e pk s)
   \<and> reservations (snd (cancelReservation (e\<lparr>sendMail := m\<rparr>) pk s)) =
       reservations (snd (cancelReservation e pk s))
   \<and> (fst (reservationValidation e b) = [] \<longrightarrow>
       Reservation_create e uuid (snd (reservationValidation e b)) (reservations s) =
         Inr (r, table) \<longrightarrow>
       fst (createReservation (e\<lparr>sendMail := m\<rparr>) uuid b s) =
         respond 201 True (Data (Some ''Reservation created successfully'') r)
       \<and> reservations (snd (createReservation (e\<lparr>sendMail := m\<rparr>) uuid b s)) = table)
   \<and> (findByPk e pk (reservations s) = Inr (Some found) \<longrightarrow>
       fst (cancelReservation (e\<lparr>sendMail := m\<rparr>) pk s) =
         respond 200 True
           (Data (Some ''Reservation cancelled successfully'') (found\<lparr>status := ''cancelled''\<rparr>))
       \<and> reservations (snd (cancelReservation (e\<lparr>sendMail := m\<rparr>) pk s)) =
           map (\<lambda>x. if res_id x = res_id found then x\<lparr>status := ''cancelled''\<rparr> else x)
             (reservations s))"
  by (simp add: createReservation_response createReservation_table
      cancelReservation_response cancelReservation_table_cases findByPk_sendMail
      reservationValidation_sendMail Reservation_create_sendMail split: prod.split)

subsection \<open>Creating\<close>

lemma trim_examples:
  "trim ''John Doe'' = ''John Doe''" "trim ''+1234567890'' = ''+1234567890''"
  "trim ''John Smith'' = ''John Smith''"
  by (simp_all add: trim_def isSpace_def)

lemma matchesTime_10: "matchesTime ''10:00:00''"
  by (simp add: matchesTime_def hourPattern_def minSecPattern_def isDigit_def)

lemma example_env_accepts: "accepts_example example_env"
  using matchesTime_10
  by (simp add: accepts_example_def example_env_def uuid_shaped_def hex_shape_def
      date_shaped_def digit_shape_def isDigit_def padStart_def)

lemma example_validation:
  assumes "accepts_example e" and "matchesTime t"
  shows "reservationValidation e (example_body\<lparr>b_appointmentTime := Val t\<rparr>) =
           ([], example_body\<lparr>b_appointmentTime := Val t\<rparr>)"
  using assms
  by (simp add: reservationValidation_def Let_def example_body_def accepts_example_def
      trim_examples check_def isLength_def serviceTypes_def)

lemma example_model_valid:
  assumes "accepts_example e"
  shows "model_validate e True (withDefaults uuid (example_body\<lparr>b_appointmentTime := Val t\<rparr>)) = []"
  using assms
  by (simp add: model_validate_def withDefaults_def example_body_def accepts_example_def
      attribute_errors_def seq_notEmpty_def isLength_def isSpace_def serviceTypes_def statuses_def)

lemma example_columns:
  "varchar_255 ''John Doe'' = Some ''John Doe''"
  "varchar_255 ''john@example.com'' = Some ''john@example.com''"
  "varchar_255 ''+1234567890'' = Some ''+1234567890''"
  "varchar_255 ''John Smith'' = Some ''John Smith''"
  "varchar_255 ''haircut'' = Some ''haircut''"
  "varchar_255 ''shave'' = Some ''shave''"
  "varchar_255 ''pending'' = Some ''pending''"
  "integer_column 30 = Some 30"
  "decimal_10_2 25 = Some 25"
  "decimal_10_2 15 = Some 15"
  by (simp_all add: varchar_255_def integer_column_def decimal_10_2_def floor_eq_iff)

lemma example_accepted:
  assumes "accepts_example e" and "asUUID e uuid = Some uuid" and "asTime e t = Some c"
  shows "refused_columns e (withDefaults uuid (example_body\<lparr>b_appointmentTime := Val t\<rparr>)) = []"
    and "set_values (as_stored e (withDefaults uuid (example_body\<lparr>b_appointmentTime := Val t\<rparr>)))
           (blank (assign (b_id (as_stored e
              (withDefaults uuid (example_body\<lparr>b_appointmentTime := Val t\<rparr>)))) []))
         = example_row uuid c ''pending''"
  using assms
  by (simp_all add: refused_columns_def as_stored_def withDefaults_def example_body_def
      accepts_example_def column_errors_def example_columns set_values_def blank_def
      example_row_def)

lemma example_create:
  assumes "accepts_example e" and "asUUID e uuid = Some uuid" and "asTime e t = Some c"
    and "find (\<lambda>x. res_id x = uuid) table = None"
  shows "Reservation_create e uuid (example_body\<lparr>b_appointmentTime := Val t\<rparr>) table =
           Inr (example_row uuid c ''pending'', table @ [example_row uuid c ''pending''])"
  using assms(4)
  by (simp add: Reservation_create_def Let_def example_model_valid [OF assms(1)]
      example_accepted [OF assms(1,2,3)])
     (simp add: example_row_def)

lemma findByPk_missing:
  "asUUID e uuid = Some uuid \<Longrightarrow> findByPk e uuid table = Inr None \<Longrightarrow>
   find (\<lambda>x. res_id x = uuid) table = None"
  by (simp add: findByPk_def)

lemma example_createReservation:
  assumes "accepts_example e" and "matchesTime t" and "asTime e t = Some c"
    and "asUUID e uuid = Some uuid" and "findByPk e uuid (reservations s) = Inr None"
  shows "fst (createReservation e uuid (example_body\<lparr>b_appointmentTime := Val t\<rparr>) s) =
           respond 201 True
             (Data (Some ''Reservation created successfully'') (example_row uuid c ''pending''))"
    and "reservations (snd (createReservation e uuid (example_body\<lparr>b_appointmentTime := Val t\<rparr>) s)) =
           reservations s @ [example_row uuid c ''pending'']"
  by (simp_all add: createReservation_response createReservation_table
      example_validation [OF assms(1,2)]
      example_create [OF assms(1,4,3) findByPk_missing [OF assms(4,5)]])

lemma example_body_time: "example_body\<lparr>b_appointmentTime := Val ''10:00:00''\<rparr> = example_body"
  by (simp add: example_body_def)

lemma find_append_new:
  "find (\<lambda>x. res_id x = c) table = None \<Longrightarrow> res_id r = c \<Longrightarrow>
   find (\<lambda>x. res_id x = c) (table @ [r]) = Some r"
  by (induction table) (auto split: if_splits)

text \<open>
  Claim C4. Creating a reservation with the valid data of the test suite (name John Doe,
  e-mail john@example.com, service haircut, date 2025-12-25, time 10:00:00, price 25,
  with the phone, barber and duration of the test) answers 201 with \<^verbatim>\<open>success: true\<close>,
  and the created entity has status \<^verbatim>\<open>pending\<close> and price 25; the row is stored under
  the generated identifier. The hypotheses say that the libraries and the columns accept
  the texts of the example as they are, that the generated identifier is a UUID in its
  stored form, and that it is new.
\<close>

theorem createReservation_example:
  assumes "accepts_example e" and "asUUID e uuid = Some uuid"
    and "findByPk e uuid (reservations s) = Inr None"
  shows "statusCode (fst (createReservation e uuid example_body s)) = 201
       \<and> success (fst (createReservation e uuid example_body s))
       \<and> map_option status (data_of (fst (createReservation e uuid example_body s))) =
           Some ''pending''
       \<and> map_option price (data_of (fst (createReservation e uuid example_body s))) = Some 25
       \<and> data_of (fst (createReservation e uuid example_body s)) =
           Some \<lparr>res_id = uuid, customerName = ''John Doe'',
                 customerEmail = ''john@example.com'', customerPhone = ''+1234567890'',
                 barberId = ''123e4567-e89b-12d3-a456-426614174000'',
                 barberName = ''John Smith'', serviceType = ''haircut'',
                 appointmentDate = ''2025-12-25'', appointmentTime = ''10:00:00'',
                 duration = 30, price = 25, status = ''pending'', res_notes = None\<rparr>
       \<and> findByPk e uuid (reservations (snd (createReservation e uuid example_body s))) =
           Inr (data_of (fst (createReservation e uuid example_body s)))"
proof -
  have time: "asTime e ''10:00:00'' = Some ''10:00:00''"
    using assms(1) by (simp add: accepts_example_def)
  have resp: "fst (createReservation e uuid example_body s) =
      respond 201 True
        (Data (Some ''Reservation created successfully'')
           (example_row uuid ''10:00:00'' ''pending''))"
    using example_createReservation(1) [OF assms(1) matchesTime_10 time assms(2,3)]
    by (simp add: example_body_time)
  have tbl: "reservations (snd (createReservation e uuid example_body s)) =
      reservations s @ [example_row uuid ''10:00:00'' ''pending'']"
    using example_createReservation(2) [OF assms(1) matchesTime_10 time assms(2,3)]
    by (simp add: example_body_time)
  have stored: "findByPk e uuid (reservations s @ [example_row uuid ''10:00:00'' ''pending''])
      = Inr (Some (example_row uuid ''10:00:00'' ''pending''))"
    using find_append_new [OF findByPk_missing [OF assms(2,3)],
        of "example_row uuid ''10:00:00'' ''pending''"]
    by (simp add: findByPk_def assms(2) example_row_def)
  show ?thesis
    by (simp add: resp tbl stored respond_def data_of_def) (simp add: example_row_def)
qed

theorem createReservation_example_witness:
  "statusCode (fst (createReservation example_env first_id example_body (example_state []))) = 201
   \<and> map_option status
        (data_of (fst (createReservation example_env first_id example_body (example_state []))))
      = Some ''pending''
   \<and> map_option price
        (data_of (fst (createReservation example_env first_id example_body (example_state []))))
      = Some 25"
proof -
  have none: "findByPk example_env first_id (reservations (example_state [])) = Inr None"
    by (simp add: findByPk_def example_ids example_state_def)
  show ?thesis
    using createReservation_example [OF example_env_accepts example_ids(2) none] by simp
qed

lemma example_time: "asTime example_env ''10:00:00'' = Some ''10:00:00''"
  using example_env_accepts by (simp add: accepts_example_def)

theorem notification_failure_not_surfaced_witness:
  "fst (createReservation (example_env\<lparr>sendMail := \<lambda>d. Inl ''connect ECONNREFUSED''\<rparr>)
          first_id example_body (example_state []))
     = respond 201 True
         (Data (Some ''Reservation created successfully'')
            (example_row first_id ''10:00:00'' ''pending''))
   \<and> reservations
        (snd (createReservation (example_env\<lparr>sendMail := \<lambda>d. Inl ''connect ECONNREFUSED''\<rparr>)
                first_id example_body (example_state [])))
     = [example_row first_id ''10:00:00'' ''pending'']
   \<and> fst (cancelReservation (example_env\<lparr>sendMail := \<lambda>d. Inl ''connect ECONNREFUSED''\<rparr>)
            first_id (example_state [example_row first_id ''10:00:00'' ''pending'']))
     = respond 200 True
         (Data (Some ''Reservation cancelled successfully'')
            (example_row first_id ''10:00:00'' ''cancelled''))
   \<and> reservations
        (snd (cancelReservation (example_env\<lparr>sendMail := \<lambda>d. Inl ''connect ECONNREFUSED''\<rparr>)
                first_id (example_state [example_row first_id ''10:00:00'' ''pending''])))
     = [example_row first_id ''10:00:00'' ''cancelled'']"
proof -
  have v: "fst (reservationValidation example_env example_body) = []"
          "snd (reservationValidation example_env example_body) = example_body"
    using example_validation [OF example_env_accepts matchesTime_10]
    by (simp_all add: example_body_time)
  have c: "Reservation_create example_env first_id example_body (reservations (example_state []))
             = Inr (example_row first_id ''10:00:00'' ''pending'',
                    [example_row first_id ''10:00:00'' ''pending''])"
    using example_create [OF example_env_accepts example_ids(2) example_time, of "[]"]
    by (simp add: example_body_time example_state_def)
  have f: "findByPk example_env first_id
             (reservations (example_state [example_row first_id ''10:00:00'' ''pending'']))
             = Inr (Some (example_row first_id ''10:00:00'' ''pending''))"
    by (simp add: findByPk_def example_ids example_state_def example_row_def)
  note create = notification_failure_not_surfaced
            [where e = example_env and m = "\<lambda>d. Inl ''connect ECONNREFUSED''"
               and uuid = "first_id" and b = example_body and s = "example_state []"
               and r = "example_row first_id ''10:00:00'' ''pending''"
               and table = "[example_row first_id ''10:00:00'' ''pending'']"
               and pk = "first_id" and found = "example_row first_id ''10:00:00'' ''pending''"]
  note cancel = notification_failure_not_surfaced
            [where e = example_env and m = "\<lambda>d. Inl ''connect ECONNREFUSED''"
               and uuid = "first_id" and b = example_body
               and s = "example_state [example_row first_id ''10:00:00'' ''pending'']"
               and r = "example_row first_id ''10:00:00'' ''pending''"
               and table = "[example_row first_id ''10:00:00'' ''pending'']"
               and pk = "first_id" and found = "example_row first_id ''10:00:00'' ''pending''"]
  have created:
    "fst (createReservation (example_env\<lparr>sendMail := \<lambda>d. Inl ''connect ECONNREFUSED''\<rparr>)
          first_id example_body (example_state []))
     = respond 201 True
         (Data (Some ''Reservation created successfully'')
            (example_row first_id ''10:00:00'' ''pending''))
   \<and> reservations
        (snd (createReservation (example_env\<lparr>sendMail := \<lambda>d. Inl ''connect ECONNREFUSED''\<rparr>)
                first_id example_body (example_state [])))
     = [example_row first_id ''10:00:00'' ''pending'']"
    using create [THEN conjunct2, THEN conjunct2, THEN conjunct2, THEN conjunct2, THEN conjunct1]
    by (simp add: v c)
  have cancelled:
    "fst (cancelReservation (example_env\<lparr>sendMail := \<lambda>d. Inl ''connect ECONNREFUSED''\<rparr>)
            first_id (example_state [example_row first_id ''10:00:00'' ''pending'']))
     = respond 200 True
         (Data (Some ''Reservation cancelled successfully'')
            ((example_row first_id ''10:00:00'' ''pending'')\<lparr>status := ''cancelled''\<rparr>))
   \<and> reservations
        (snd (cancelReservation (example_env\<lparr>sendMail := \<lambda>d. Inl ''connect ECONNREFUSED''\<rparr>)
                first_id (example_state [example_row first_id ''10:00:00'' ''pending''])))
     = map (\<lambda>x. if res_id x = res_id (example_row first_id ''10:00:00'' ''pending'')
                   then x\<lparr>status := ''cancelled''\<rparr> else x)
         (reservations (example_state [example_row first_id ''10:00:00'' ''pending'']))"
    using cancel [THEN conjunct2, THEN conjunct2, THEN conjunct2, THEN conjunct2, THEN conjunct2]
    by (simp add: f)
  have row: "(example_row first_id ''10:00:00'' ''pending'')\<lparr>status := ''cancelled''\<rparr>
      = example_row first_id ''10:00:00'' ''cancelled''"
    by (simp add: example_row_def)
  have tbl: "map (\<lambda>x. if res_id x = res_id (example_row first_id ''10:00:00'' ''pending'')
                   then x\<lparr>status := ''cancelled''\<rparr> else x)
         (reservations (example_state [example_row first_id ''10:00:00'' ''pending'']))
      = [example_row first_id ''10:00:00'' ''cancelled'']"
    by (simp add: example_state_def example_row_def)
  show ?thesis
    using created cancelled by (simp only: row tbl)
qed

text \<open>The failure of the transport is written to the console, and only there.\<close>

text \<open>The failure of the transport is written to the console, and only there.\<close>

lemma failing_transport_is_logged:
  "console (snd (createReservation (example_env\<lparr>sendMail := \<lambda>d. Inl ''connect ECONNREFUSED''\<rparr>)
          first_id example_body (example_state [])))
     = [''Email send failed: connect ECONNREFUSED'']"
proof -
  have v: "reservationValidation (example_env\<lparr>sendMail := \<lambda>d. Inl ''connect ECONNREFUSED''\<rparr>) example_body
            = ([], example_body)"
    using example_validation [OF example_env_accepts matchesTime_10]
    by (simp add: example_body_time reservationValidation_sendMail)
  have c: "Reservation_create (example_env\<lparr>sendMail := \<lambda>d. Inl ''connect ECONNREFUSED''\<rparr>) first_id example_body (reservations (example_state []))
             = Inr (example_row first_id ''10:00:00'' ''pending'',
                    [example_row first_id ''10:00:00'' ''pending''])"
    using example_create [OF example_env_accepts example_ids(2) example_time, of "[]"]
    by (simp add: example_body_time example_state_def Reservation_create_sendMail)
  show ?thesis
    by (simp add: createReservation_def v c send_email) (simp add: example_state_def)
qed

subsection \<open>Available slots\<close>

lemma findAll_slots:
  assumes "asUUID e b = Some cb" and "asDate e d = Some cd"
  shows "findAll e \<lparr>w_barberId = Some (Eq b), w_appointmentDate = Some (Eq d),
                    w_status = Some (In [''pending'', ''confirmed''])\<rparr> Unordered table =
         Inr (filter (\<lambda>r. barberId r = cb \<and> appointmentDate r = cd \<and>
                          (status r = ''pending'' \<or> status r = ''confirmed'')) table)"
proof -
  have "matches_where \<lparr>w_barberId = Some (Eq cb), w_appointmentDate = Some (Eq cd),
                         w_status = Some (In [''pending'', ''confirmed''])\<rparr>
      = (\<lambda>r. barberId r = cb \<and> appointmentDate r = cd \<and>
                          (status r = ''pending'' \<or> status r = ''confirmed''))"
    by (rule ext) (auto simp: matches_where_def)
  then show ?thesis
    using assms by (simp add: findAll_def)
qed

lemma findAll_slots_refused:
  assumes "asUUID e b = None \<or> asDate e d = None"
  shows "\<exists>err. findAll e \<lparr>w_barberId = Some (Eq b), w_appointmentDate = Some (Eq d),
                    w_status = Some (In [''pending'', ''confirmed''])\<rparr> Unordered table =
         Inl err"
  using assms by (auto simp: findAll_def split: option.split)

lemma getAvailableSlots_missing:
  "\<not> truthy (q_barberId q) \<or> \<not> truthy (q_date q) \<Longrightarrow>
   getAvailableSlots e this q s =
     (respond 400 False (Message ''Barber ID and date are required''), s)"
  by (simp add: getAvailableSlots_def)

lemma getAvailableSlots_unbound:
  assumes "truthy (q_barberId q)" and "truthy (q_date q)"
  shows "statusCode (fst (getAvailableSlots e Undefined q s)) = 500"
    and "\<not> success (fst (getAvailableSlots e Undefined q s))"
    and "message_of (fst (getAvailableSlots e Undefined q s)) =
           Some ''Failed to fetch available slots''"
    and "reservations (snd (getAvailableSlots e Undefined q s)) = reservations s"
  using assms
  by (simp_all add: getAvailableSlots_def this_generateTimeSlots_def respond_def message_of_def
      split: sum.split)

lemma getAvailableSlots_unbound_accepted:
  assumes "q_barberId q = Some b" and "b \<noteq> []" and "q_date q = Some d" and "d \<noteq> []"
    and "asUUID e b = Some cb" and "asDate e d = Some cd"
  shows "getAvailableSlots e Undefined q s =
     (respond 500 False
        (Failure ''Failed to fetch available slots''
           ''Cannot read properties of undefined (reading 'generateTimeSlots')''),
      s\<lparr>console := console s @
           [''Get slots error: Cannot read properties of undefined (reading 'generateTimeSlots')'']\<rparr>)"
  using assms
  by (simp add: getAvailableSlots_def this_generateTimeSlots_def findAll_slots)

text \<open>
  Called on the class, with a barber and a date that the columns accept, the handler
  computes what the specification describes.
\<close>

lemma getAvailableSlots_bound:
  assumes "q_barberId q = Some b" and "b \<noteq> []" and "q_date q = Some d" and "d \<noteq> []"
    and "asUUID e b = Some cb" and "asDate e d = Some cd"
  shows "getAvailableSlots e ReservationController q s =
     (respond 200 True
        (Slots d b
           (filter (\<lambda>slot. \<not> (\<exists>r \<in> set (reservations s).
                        barberId r = cb \<and> appointmentDate r = cd \<and>
                        (status r = ''pending'' \<or> status r = ''confirmed'') \<and>
                        appointmentTime r = slot))
              generateTimeSlots)),
      s)"
proof -
  have "filter (\<lambda>slot. slot \<notin> set (map appointmentTime
            (filter (\<lambda>r. barberId r = cb \<and> appointmentDate r = cd \<and>
                          (status r = ''pending'' \<or> status r = ''confirmed'')) (reservations s))))
          generateTimeSlots
      = filter (\<lambda>slot. \<not> (\<exists>r \<in> set (reservations s).
                        barberId r = cb \<and> appointmentDate r = cd \<and>
                        (status r = ''pending'' \<or> status r = ''confirmed'') \<and>
                        appointmentTime r = slot))
              generateTimeSlots"
    by (rule filter_cong [OF refl]) auto
  then show ?thesis
    using assms
    by (simp add: getAvailableSlots_def this_generateTimeSlots_def Let_def findAll_slots
        del: set_map)
qed

lemma getAvailableSlots_bound_subseq:
  assumes "statusCode (fst (getAvailableSlots e ReservationController q s)) = 200"
  shows "\<exists>slots. json (fst (getAvailableSlots e ReservationController q s)) =
            Slots (the (q_date q)) (the (q_barberId q)) slots
          \<and> subseq slots generateTimeSlots"
  using assms
  by (auto simp: getAvailableSlots_def this_generateTimeSlots_def Let_def respond_def
      split: if_splits sum.splits)

lemma example_query_accepted:
  "asUUID example_env ''123e4567-e89b-12d3-a456-426614174000'' =
     Some ''123e4567-e89b-12d3-a456-426614174000''"
  "asDate example_env ''2025-12-25'' = Some ''2025-12-25''"
  using example_env_accepts by (simp_all add: accepts_example_def)

text \<open>
  Claim C1. The claim is that the available-slots computation returns the grid without
  the slots that a pending or confirmed reservation of the barber and date occupies, and
  the empty sequence rather than an error when every slot is taken. Called on the class
  the handler does so (\<open>getAvailableSlots_bound\<close>). The route calls it without a receiver:
  whatever the request and the table, the answer of the route is never 200, and for the
  barber and date of the test suite with one pending reservation at 10:00:00 it is the
  500 response of the handler's \<^verbatim>\<open>catch\<close>, not the 17 remaining slots.
\<close>

theorem available_slots_route_never_answers_slots:
  "statusCode (fst (app e uuid (GET_available_slots q) s)) \<noteq> 200
   \<and> fst (app example_env first_id (GET_available_slots example_query)
            (example_state [example_row second_id ''10:00:00'' ''pending'']))
     = respond 500 False
         (Failure ''Failed to fetch available slots''
            ''Cannot read properties of undefined (reading 'generateTimeSlots')'')"
proof -
  have "statusCode (fst (app e uuid (GET_available_slots q) s)) \<noteq> 200"
  proof (cases "truthy (q_barberId q) \<and> truthy (q_date q)")
    case True
    then show ?thesis by (simp add: app_def getAvailableSlots_unbound(1))
  next
    case False
    then show ?thesis by (simp add: app_def getAvailableSlots_missing respond_def)
  qed
  moreover have "fst (app example_env first_id (GET_available_slots example_query)
            (example_state [example_row second_id ''10:00:00'' ''pending'']))
     = respond 500 False
         (Failure ''Failed to fetch available slots''
            ''Cannot read properties of undefined (reading 'generateTimeSlots')'')"
    by (simp add: app_def example_query_def
        getAvailableSlots_unbound_accepted [OF _ _ _ _ example_query_accepted])
  ultimately show ?thesis by simp
qed

text \<open>The same request, had the handler been called on the class.\<close>

lemma example_slots_with_receiver:
  "fst (getAvailableSlots example_env ReservationController example_query
          (example_state [example_row second_id ''10:00:00'' ''pending'']))
     = respond 200 True
         (Slots ''2025-12-25'' ''123e4567-e89b-12d3-a456-426614174000''
            [''09:00:00'', ''09:30:00'', ''10:30:00'', ''11:00:00'', ''11:30:00'',
             ''12:00:00'', ''12:30:00'', ''13:00:00'', ''13:30:00'', ''14:00:00'', ''14:30:00'',
             ''15:00:00'', ''15:30:00'', ''16:00:00'', ''16:30:00'', ''17:00:00'', ''17:30:00''])"
  by (simp add: getAvailableSlots_bound [OF _ _ _ _ example_query_accepted]
      example_query_def example_state_def example_row_def generateTimeSlots_value)

text \<open>
  Claim C7. An available-slots request without a barber or without a date (an absent or
  empty parameter) is answered 400 with \<^verbatim>\<open>success: false\<close> and the state untouched, as
  the claim says. With both parameters the claim expects 200 with date, barber and slot
  list; the route answers 500 with \<^verbatim>\<open>Failed to fetch available slots\<close> and without a
  change to the table: for a barber and a date that the columns accept with the
  TypeError of the missing receiver, after the query, and otherwise with the error of
  the query.
\<close>

theorem available_slots_route_responses:
  "(\<not> truthy (q_barberId q) \<or> \<not> truthy (q_date q) \<longrightarrow>
      app e uuid (GET_available_slots q) s =
        (respond 400 False (Message ''Barber ID and date are required''), s))
   \<and> (truthy (q_barberId q) \<and> truthy (q_date q) \<longrightarrow>
      statusCode (fst (app e uuid (GET_available_slots q) s)) = 500
      \<and> \<not> success (fst (app e uuid (GET_available_slots q) s))
      \<and> message_of (fst (app e uuid (GET_available_slots q) s)) =
          Some ''Failed to fetch available slots''
      \<and> reservations (snd (app e uuid (GET_available_slots q) s)) = reservations s)
   \<and> (truthy (q_barberId q) \<and> truthy (q_date q)
       \<and> asUUID e (the (q_barberId q)) \<noteq> None \<and> asDate e (the (q_date q)) \<noteq> None \<longrightarrow>
      fst (app e uuid (GET_available_slots q) s) =
        respond 500 False
          (Failure ''Failed to fetch available slots''
             ''Cannot read properties of undefined (reading 'generateTimeSlots')''))"
proof (intro conjI impI)
  assume "\<not> truthy (q_barberId q) \<or> \<not> truthy (q_date q)"
  then show "app e uuid (GET_available_slots q) s =
        (respond 400 False (Message ''Barber ID and date are required''), s)"
    by (simp add: app_def getAvailableSlots_missing)
next
  assume t: "truthy (q_barberId q) \<and> truthy (q_date q)"
  then show "statusCode (fst (app e uuid (GET_available_slots q) s)) = 500"
    and "\<not> success (fst (app e uuid (GET_available_slots q) s))"
    and "message_of (fst (app e uuid (GET_available_slots q) s)) =
          Some ''Failed to fetch available slots''"
    and "reservations (snd (app e uuid (GET_available_slots q) s)) = reservations s"
    by (simp_all add: app_def getAvailableSlots_unbound)
next
  assume a: "truthy (q_barberId q) \<and> truthy (q_date q)
       \<and> asUUID e (the (q_barberId q)) \<noteq> None \<and> asDate e (the (q_date q)) \<noteq> None"
  then obtain b d cb cd where
    "q_barberId q = Some b" "b \<noteq> []" "q_date q = Some d" "d \<noteq> []"
    "asUUID e b = Some cb" "asDate e d = Some cd"
    by (cases "q_barberId q"; cases "q_date q") auto
  then show "fst (app e uuid (GET_available_slots q) s) =
        respond 500 False
          (Failure ''Failed to fetch available slots''
             ''Cannot read properties of undefined (reading 'generateTimeSlots')'')"
    by (simp add: app_def getAvailableSlots_unbound_accepted)
qed

theorem available_slots_route_responses_witness:
  "app example_env first_id
       (GET_available_slots \<lparr>q_status = None, q_date = None, q_barberId = None\<rparr>)
       (example_state [])
     = (respond 400 False (Message ''Barber ID and date are required''), example_state [])
   \<and> statusCode (fst (app example_env first_id
        (GET_available_slots \<lparr>q_status = None, q_date = Some ''2025-12-25'',
                               q_barberId = Some ''not-a-uuid''\<rparr>) (example_state []))) = 500
   \<and> fst (app example_env first_id (GET_available_slots example_query) (example_state []))
     = respond 500 False
         (Failure ''Failed to fetch available slots''
            ''Cannot read properties of undefined (reading 'generateTimeSlots')'')"
proof -
  note a = available_slots_route_responses
      [where e = example_env and uuid = first_id and s = "example_state []"
         and q = "\<lparr>q_status = None, q_date = None, q_barberId = None\<rparr>",
       THEN conjunct1, rule_format]
  note b = available_slots_route_responses
      [where e = example_env and uuid = first_id and s = "example_state []"
         and q = "\<lparr>q_status = None, q_date = Some ''2025-12-25'',
                   q_barberId = Some ''not-a-uuid''\<rparr>",
       THEN conjunct2, THEN conjunct1, rule_format]
  note c = available_slots_route_responses
      [where e = example_env and uuid = first_id and s = "example_state []"
         and q = example_query,
       THEN conjunct2, THEN conjunct2, rule_format]
  have "app example_env first_id
       (GET_available_slots \<lparr>q_status = None, q_date = None, q_barberId = None\<rparr>)
       (example_state [])
     = (respond 400 False (Message ''Barber ID and date are required''), example_state [])"
    using a by simp
  moreover have "statusCode (fst (app example_env first_id
        (GET_available_slots \<lparr>q_status = None, q_date = Some ''2025-12-25'',
                               q_barberId = Some ''not-a-uuid''\<rparr>) (example_state []))) = 500"
    using b by simp
  moreover have "fst (app example_env first_id (GET_available_slots example_query) (example_state []))
     = respond 500 False
         (Failure ''Failed to fetch available slots''
            ''Cannot read properties of undefined (reading 'generateTimeSlots')'')"
    using c by (simp add: example_query_def example_query_accepted)
  ultimately show ?thesis by simp
qed

lemma off_grid_row_blocks_nothing:
  assumes "appointmentTime r \<notin> set generateTimeSlots"
  shows "filter (\<lambda>slot. slot \<notin> set (map appointmentTime
                          (orderBy ord (filter P (xs @ r # ys))))) generateTimeSlots
       = filter (\<lambda>slot. slot \<notin> set (map appointmentTime
                          (orderBy ord (filter P (xs @ ys))))) generateTimeSlots"
proof (rule filter_cong [OF refl])
  fix slot assume "slot \<in> set generateTimeSlots"
  with assms have "slot \<noteq> appointmentTime r" by auto
  then show "(slot \<notin> set (map appointmentTime (orderBy ord (filter P (xs @ r # ys)))))
           = (slot \<notin> set (map appointmentTime (orderBy ord (filter P (xs @ ys)))))"
    by (cases ord) auto
qed

lemma findAll_off_grid:
  assumes "appointmentTime r \<notin> set generateTimeSlots"
  shows "(case findAll e w ord (xs @ r # ys) of
            Inl err \<Rightarrow> Inl err
          | Inr rows \<Rightarrow>
              Inr (filter (\<lambda>slot. slot \<notin> set (map appointmentTime rows)) generateTimeSlots))
       = (case findAll e w ord (xs @ ys) of
            Inl err \<Rightarrow> Inl err
          | Inr rows \<Rightarrow>
              Inr (filter (\<lambda>slot. slot \<notin> set (map appointmentTime rows)) generateTimeSlots))"
proof (cases "cond_in (asUUID e) (w_barberId w)")
  case None
  then show ?thesis by (simp add: findAll_def)
next
  case barber: (Some cb)
  show ?thesis
  proof (cases "cond_in (asDate e) (w_appointmentDate w)")
    case None
    then show ?thesis by (simp add: findAll_def barber)
  next
    case (Some cd)
    then show ?thesis
      by (simp only: findAll_def barber option.case sum.case
          off_grid_row_blocks_nothing [OF assms])
  qed
qed

lemma getAvailableSlots_response:
  "fst (getAvailableSlots e this q s) =
     (if \<not> truthy (q_barberId q) \<or> \<not> truthy (q_date q)
      then respond 400 False (Message ''Barber ID and date are required'')
      else
        (case (case findAll e \<lparr>w_barberId = map_option Eq (q_barberId q),
                                 w_appointmentDate = map_option Eq (q_date q),
                                 w_status = Some (In [''pending'', ''confirmed''])\<rparr>
                       Unordered (reservations s) of
                 Inl err \<Rightarrow> Inl err
               | Inr rows \<Rightarrow>
                   Inr (filter (\<lambda>slot. slot \<notin> set (map appointmentTime rows))
                          generateTimeSlots)) of
           Inl err \<Rightarrow>
             respond 500 False (Failure ''Failed to fetch available slots'' (message err))
         | Inr available \<Rightarrow>
             (case this of
                Undefined \<Rightarrow>
                  respond 500 False
                    (Failure ''Failed to fetch available slots''
                       ''Cannot read properties of undefined (reading 'generateTimeSlots')'')
              | ReservationController \<Rightarrow>
                  respond 200 True
                    (Slots (the (q_date q)) (the (q_barberId q)) available))))"
  by (cases this)
     (simp_all add: getAvailableSlots_def this_generateTimeSlots_def Let_def
        split: sum.split del: set_map)

lemma getAvailableSlots_off_grid:
  assumes "appointmentTime r \<notin> set generateTimeSlots"
  shows "fst (getAvailableSlots e this q (s\<lparr>reservations := xs @ r # ys\<rparr>)) =
         fst (getAvailableSlots e this q (s\<lparr>reservations := xs @ ys\<rparr>))"
  by (simp add: getAvailableSlots_response findAll_off_grid [OF assms]
      del: set_map map_append filter_append filter.simps)

lemma getAvailableSlots_reads_table:
  "reservations s' = reservations s \<Longrightarrow>
   fst (getAvailableSlots e this q s') = fst (getAvailableSlots e this q s)"
  by (simp add: getAvailableSlots_response)

lemma getAvailableSlots_after_off_grid_row:
  assumes "appointmentTime r \<notin> set generateTimeSlots"
    and "reservations s' = reservations s @ [r]"
  shows "fst (getAvailableSlots e this q s') = fst (getAvailableSlots e this q s)"
proof -
  have "fst (getAvailableSlots e this q s') =
        fst (getAvailableSlots e this q (s\<lparr>reservations := reservations s @ r # []\<rparr>))"
    by (rule getAvailableSlots_reads_table) (simp add: assms(2))
  also have "\<dots> = fst (getAvailableSlots e this q (s\<lparr>reservations := reservations s @ []\<rparr>))"
    by (rule getAvailableSlots_off_grid [OF assms(1)])
  also have "\<dots> = fst (getAvailableSlots e this q s)"
    by (rule getAvailableSlots_reads_table) simp
  finally show ?thesis .
qed

lemma matchesTime_off_grid:
  "matchesTime ''10:15:00''" "''10:15:00'' \<notin> set generateTimeSlots"
  by (simp_all add: matchesTime_def hourPattern_def minSecPattern_def isDigit_def
      generateTimeSlots_value)

text \<open>
  Claim C8. Creation accepts every \<^verbatim>\<open>appointmentTime\<close> that matches the pattern of the
  validation chain, on the grid or not: the example body with any such time is answered
  201, and the created reservation, which the table then holds under its identifier, is
  pending and carries the time as the TIME column stores it. \<^verbatim>\<open>10:15:00\<close> matches and
  is not a slot of the grid. A row whose \<^verbatim>\<open>appointmentTime\<close> is not one of the 18 texts
  of the grid, whatever its status, barber and date, changes no available-slots
  response, since the slots are removed by equality of texts; so when the stored time
  of the created reservation is not a text of the grid, every available-slots response
  after the creation is the one before it.
\<close>

theorem off_grid_time_accepted_blocks_no_slot:
  "(accepts_example e \<longrightarrow> matchesTime t \<longrightarrow> asTime e t = Some c \<longrightarrow>
    asUUID e uuid = Some uuid \<longrightarrow> findByPk e uuid (reservations s) = Inr None \<longrightarrow>
      statusCode
        (fst (createReservation e uuid (example_body\<lparr>b_appointmentTime := Val t\<rparr>) s)) = 201
      \<and> map_option appointmentTime
          (data_of (fst (createReservation e uuid
             (example_body\<lparr>b_appointmentTime := Val t\<rparr>) s))) = Some c
      \<and> map_option status
          (data_of (fst (createReservation e uuid
             (example_body\<lparr>b_appointmentTime := Val t\<rparr>) s))) = Some ''pending''
      \<and> find (\<lambda>r. res_id r = uuid)
            (reservations (snd (createReservation e uuid
               (example_body\<lparr>b_appointmentTime := Val t\<rparr>) s)))
          = data_of (fst (createReservation e uuid
               (example_body\<lparr>b_appointmentTime := Val t\<rparr>) s))
      \<and> (c \<notin> set generateTimeSlots \<longrightarrow>
           fst (getAvailableSlots e this q
                  (snd (createReservation e uuid
                     (example_body\<lparr>b_appointmentTime := Val t\<rparr>) s)))
           = fst (getAvailableSlots e this q s)))
   \<and> matchesTime ''10:15:00'' \<and> ''10:15:00'' \<notin> set generateTimeSlots
   \<and> (appointmentTime r \<notin> set generateTimeSlots \<longrightarrow>
        fst (getAvailableSlots e this q (s\<lparr>reservations := xs @ r # ys\<rparr>)) =
        fst (getAvailableSlots e this q (s\<lparr>reservations := xs @ ys\<rparr>)))"
proof (intro conjI impI)
  assume a: "accepts_example e" "matchesTime t" "asTime e t = Some c"
    "asUUID e uuid = Some uuid" "findByPk e uuid (reservations s) = Inr None"
  let ?res = "createReservation e uuid (example_body\<lparr>b_appointmentTime := Val t\<rparr>) s"
  note resp = example_createReservation(1) [OF a]
  note tbl = example_createReservation(2) [OF a]
  show "statusCode (fst ?res) = 201"
    by (simp add: resp respond_def)
  show "map_option appointmentTime (data_of (fst ?res)) = Some c"
    by (simp add: resp respond_def data_of_def example_row_def)
  show "map_option status (data_of (fst ?res)) = Some ''pending''"
    by (simp add: resp respond_def data_of_def example_row_def)
  show "find (\<lambda>r. res_id r = uuid) (reservations (snd ?res)) = data_of (fst ?res)"
    using find_append_new [OF findByPk_missing [OF a(4,5)], of "example_row uuid c ''pending''"]
    by (simp add: resp tbl respond_def data_of_def) (simp add: example_row_def)
  assume off: "c \<notin> set generateTimeSlots"
  show "fst (getAvailableSlots e this q (snd ?res)) = fst (getAvailableSlots e this q s)"
    by (rule getAvailableSlots_after_off_grid_row [OF _ tbl]) (simp add: example_row_def off)
next
  assume "appointmentTime r \<notin> set generateTimeSlots"
  then show "fst (getAvailableSlots e this q (s\<lparr>reservations := xs @ r # ys\<rparr>)) =
        fst (getAvailableSlots e this q (s\<lparr>reservations := xs @ ys\<rparr>))"
    by (rule getAvailableSlots_off_grid)
qed (rule matchesTime_off_grid)+

theorem off_grid_time_accepted_blocks_no_slot_witness:
  "statusCode
     (fst (createReservation example_env first_id
             (example_body\<lparr>b_appointmentTime := Val ''10:15:00''\<rparr>) (example_state []))) = 201
   \<and> map_option appointmentTime
       (data_of (fst (createReservation example_env first_id
             (example_body\<lparr>b_appointmentTime := Val ''10:15:00''\<rparr>) (example_state []))))
     = Some ''10:15:00''
   \<and> fst (getAvailableSlots example_env ReservationController example_query
            (snd (createReservation example_env first_id
                    (example_body\<lparr>b_appointmentTime := Val ''10:15:00''\<rparr>) (example_state []))))
     = respond 200 True
         (Slots ''2025-12-25'' ''123e4567-e89b-12d3-a456-426614174000'' generateTimeSlots)"
proof -
  have time: "asTime example_env ''10:15:00'' = Some ''10:15:00''"
    using matchesTime_off_grid(1) by (simp add: example_env_def padStart_def)
  have none: "findByPk example_env first_id (reservations (example_state [])) = Inr None"
    by (simp add: findByPk_def example_ids example_state_def)
  note inst = off_grid_time_accepted_blocks_no_slot
      [where e = example_env and t = "''10:15:00''" and c = "''10:15:00''" and uuid = first_id
         and s = "example_state []" and this = ReservationController and q = example_query,
       THEN conjunct1, rule_format,
       OF example_env_accepts matchesTime_off_grid(1) time example_ids(2) none]
  have empty: "fst (getAvailableSlots example_env ReservationController example_query
                      (example_state []))
     = respond 200 True
         (Slots ''2025-12-25'' ''123e4567-e89b-12d3-a456-426614174000'' generateTimeSlots)"
    by (simp add: getAvailableSlots_bound [OF _ _ _ _ example_query_accepted]
        example_query_def example_state_def)
  show ?thesis
    using inst matchesTime_off_grid(2) by (simp add: empty)
qed

text \<open>
  A time with a one-digit hour matches the pattern too. \<^verbatim>\<open>9:00:00\<close> is not a text of the
  grid, but the TIME column stores it as \<^verbatim>\<open>09:00:00\<close>, which is one: the created
  reservation carries the stored time, and on the class the handler removes the slot.
\<close>

lemma one_digit_hour_is_stored_on_the_grid:
  "matchesTime ''9:00:00''"
  "''9:00:00'' \<notin> set generateTimeSlots"
  "map_option appointmentTime
     (data_of (fst (createReservation example_env first_id
        (example_body\<lparr>b_appointmentTime := Val ''9:00:00''\<rparr>) (example_state []))))
   = Some ''09:00:00''"
  "fst (getAvailableSlots example_env ReservationController example_query
          (snd (createReservation example_env first_id
             (example_body\<lparr>b_appointmentTime := Val ''9:00:00''\<rparr>) (example_state []))))
   = respond 200 True
       (Slots ''2025-12-25'' ''123e4567-e89b-12d3-a456-426614174000''
          (tl generateTimeSlots))"
proof -
  show m: "matchesTime ''9:00:00''"
    by (simp add: matchesTime_def hourPattern_def minSecPattern_def isDigit_def)
  show "''9:00:00'' \<notin> set generateTimeSlots"
    by (simp add: generateTimeSlots_value)
  have time: "asTime example_env ''9:00:00'' = Some ''09:00:00''"
    using m by (simp add: example_env_def padStart_def)
  have none: "findByPk example_env first_id (reservations (example_state [])) = Inr None"
    by (simp add: findByPk_def example_ids example_state_def)
  show "map_option appointmentTime
     (data_of (fst (createReservation example_env first_id
        (example_body\<lparr>b_appointmentTime := Val ''9:00:00''\<rparr>) (example_state []))))
   = Some ''09:00:00''"
    by (simp add: example_createReservation(1)
          [OF example_env_accepts m time example_ids(2) none]
        respond_def data_of_def example_row_def)
  have "fst (getAvailableSlots example_env ReservationController example_query
          (snd (createReservation example_env first_id
             (example_body\<lparr>b_appointmentTime := Val ''9:00:00''\<rparr>) (example_state []))))
      = fst (getAvailableSlots example_env ReservationController example_query
          (example_state [example_row first_id ''09:00:00'' ''pending'']))"
    by (rule getAvailableSlots_reads_table)
       (simp only: example_createReservation(2)
          [OF example_env_accepts m time example_ids(2) none], simp add: example_state_def)
  also have "\<dots> = respond 200 True
       (Slots ''2025-12-25'' ''123e4567-e89b-12d3-a456-426614174000''
          (tl generateTimeSlots))"
    by (simp add: getAvailableSlots_bound [OF _ _ _ _ example_query_accepted]
        example_query_def example_state_def example_row_def generateTimeSlots_value)
  finally show "fst (getAvailableSlots example_env ReservationController example_query
          (snd (createReservation example_env first_id
             (example_body\<lparr>b_appointmentTime := Val ''9:00:00''\<rparr>) (example_state []))))
   = respond 200 True
       (Slots ''2025-12-25'' ''123e4567-e89b-12d3-a456-426614174000''
          (tl generateTimeSlots))" .
qed

subsection \<open>Listing\<close>

lemma holds_status:
  "holds (if truthy st then map_option Eq st else None) v = (truthy st \<longrightarrow> Some v = st)"
  by (cases st) auto

lemma getAllReservations_no_date:
  assumes "\<not> truthy (q_date q)"
  shows "getAllReservations e q s =
     (respond 200 True
        (Listing
           (length (filter (\<lambda>r. truthy (q_status q) \<longrightarrow> Some (status r) = q_status q)
                      (reservations s)))
           (orderBy DateTimeDesc
              (filter (\<lambda>r. truthy (q_status q) \<longrightarrow> Some (status r) = q_status q)
                 (reservations s)))),
      s)"
proof -
  have "matches_where \<lparr>w_barberId = None, w_appointmentDate = None,
                        w_status = (if truthy (q_status q) then map_option Eq (q_status q) else None)\<rparr>
      = (\<lambda>r. truthy (q_status q) \<longrightarrow> Some (status r) = q_status q)"
    by (rule ext) (simp add: matches_where_def holds_status)
  then show ?thesis
    using assms
    by (simp add: getAllReservations_def findAll_def Let_def no_where_def
        split: if_splits)
qed

lemma getAllReservations_date:
  assumes "q_date q = Some d" and "d \<noteq> []" and "asDate e d = Some cd"
  shows "getAllReservations e q s =
     (respond 200 True
        (Listing
           (length (filter (\<lambda>r. (truthy (q_status q) \<longrightarrow> Some (status r) = q_status q) \<and>
                                appointmentDate r = cd)
                      (reservations s)))
           (orderBy DateTimeDesc
              (filter (\<lambda>r. (truthy (q_status q) \<longrightarrow> Some (status r) = q_status q) \<and>
                                appointmentDate r = cd)
                 (reservations s)))),
      s)"
proof -
  have "matches_where \<lparr>w_barberId = None, w_appointmentDate = Some (Eq cd),
                        w_status = (if truthy (q_status q) then map_option Eq (q_status q) else None)\<rparr>
      = (\<lambda>r. (truthy (q_status q) \<longrightarrow> Some (status r) = q_status q) \<and> appointmentDate r = cd)"
    by (rule ext) (auto simp: matches_where_def holds_status)
  then show ?thesis
    using assms
    by (simp add: getAllReservations_def findAll_def Let_def no_where_def
        split: if_splits)
qed

lemma getAllReservations_date_refused:
  assumes "q_date q = Some d" and "d \<noteq> []" and "asDate e d = None"
  shows "getAllReservations e q s =
     (respond 500 False
        (Failure ''Failed to fetch reservations''
           (message (SequelizeDatabaseError [''appointmentDate'']))),
      s\<lparr>console := console s @
           [''Get reservations error: '' @ message (SequelizeDatabaseError [''appointmentDate''])]\<rparr>)"
  using assms
  by (simp add: getAllReservations_def findAll_def Let_def no_where_def)

lemma example_dates:
  "asDate example_env ''tomorrow'' = None"
  "asDate example_env ''2025-12-25'' = Some ''2025-12-25''"
  by (simp_all add: example_env_def date_shaped_def digit_shape_def isDigit_def)

text \<open>
  Claim C10, as amended. The status filter of the list operation is not validated.
  Whenever the date parameter is absent, empty or a date that the column accepts, the
  answer is 200 (never 400) and the state is untouched, whatever the status parameter
  is, one of the four statuses or not. For a non-empty status the listed rows are
  exactly the stored reservations whose status equals the parameter (and whose date is
  the date of the parameter, when one is given); for an absent or empty status no
  status filter applies and all reservations (of that date) are listed. The rows come
  by date and time descending, and the list may be empty. A date parameter that the
  column refuses makes the query throw: the answer is 500 with
  \<^verbatim>\<open>Failed to fetch reservations\<close>.
\<close>

theorem getAllReservations_status_filter:
  "(truthy (q_date q) \<and> asDate e (the (q_date q)) = None \<longrightarrow>
      statusCode (fst (getAllReservations e q s)) = 500
      \<and> \<not> success (fst (getAllReservations e q s))
      \<and> message_of (fst (getAllReservations e q s)) = Some ''Failed to fetch reservations''
      \<and> reservations (snd (getAllReservations e q s)) = reservations s)
   \<and> ((truthy (q_date q) \<longrightarrow> asDate e (the (q_date q)) = Some cd) \<longrightarrow>
      (\<exists>rows. getAllReservations e q s = (respond 200 True (Listing (length rows) rows), s)
         \<and> mset rows =
             mset (filter (\<lambda>r. (truthy (q_status q) \<longrightarrow> Some (status r) = q_status q) \<and>
                                (truthy (q_date q) \<longrightarrow> appointmentDate r = cd))
                     (reservations s))
         \<and> (truthy (q_status q) \<and> \<not> truthy (q_date q) \<longrightarrow>
              mset rows = mset (filter (\<lambda>r. Some (status r) = q_status q) (reservations s)))
         \<and> (\<not> truthy (q_status q) \<and> \<not> truthy (q_date q) \<longrightarrow>
              mset rows = mset (reservations s))
         \<and> sorted (rev (map (\<lambda>r. (appointmentDate r, appointmentTime r)) rows))))"
proof (intro conjI impI)
  assume a: "truthy (q_date q) \<and> asDate e (the (q_date q)) = None"
  then obtain d where d: "q_date q = Some d" "d \<noteq> []" "asDate e d = None"
    by (cases "q_date q") auto
  note eq = getAllReservations_date_refused [OF d]
  show "statusCode (fst (getAllReservations e q s)) = 500"
    and "\<not> success (fst (getAllReservations e q s))"
    and "message_of (fst (getAllReservations e q s)) = Some ''Failed to fetch reservations''"
    and "reservations (snd (getAllReservations e q s)) = reservations s"
    by (simp_all add: eq respond_def message_of_def)
next
  assume ok: "truthy (q_date q) \<longrightarrow> asDate e (the (q_date q)) = Some cd"
  let ?sel = "filter (\<lambda>r. (truthy (q_status q) \<longrightarrow> Some (status r) = q_status q) \<and>
                                (truthy (q_date q) \<longrightarrow> appointmentDate r = cd))
                     (reservations s)"
  have eq: "getAllReservations e q s =
      (respond 200 True (Listing (length (orderBy DateTimeDesc ?sel)) (orderBy DateTimeDesc ?sel)), s)"
  proof (cases "truthy (q_date q)")
    case False
    then show ?thesis by (simp add: getAllReservations_no_date)
  next
    case True
    then obtain d where d: "q_date q = Some d" "d \<noteq> []"
      by (cases "q_date q") auto
    with ok have "asDate e d = Some cd" by simp
    from getAllReservations_date [OF d this] show ?thesis
      using d by simp
  qed
  have srt: "sorted (rev (map (\<lambda>r. (appointmentDate r, appointmentTime r))
                       (orderBy DateTimeDesc ?sel)))"
    by (simp add: rev_map [symmetric])
  have same: "mset (orderBy DateTimeDesc ?sel) = mset ?sel"
    by simp
  have st_only: "truthy (q_status q) \<and> \<not> truthy (q_date q) \<longrightarrow>
      ?sel = filter (\<lambda>r. Some (status r) = q_status q) (reservations s)"
    by simp
  have all: "\<not> truthy (q_status q) \<and> \<not> truthy (q_date q) \<longrightarrow> ?sel = reservations s"
    by simp
  show "\<exists>rows. getAllReservations e q s = (respond 200 True (Listing (length rows) rows), s)
         \<and> mset rows = mset ?sel
         \<and> (truthy (q_status q) \<and> \<not> truthy (q_date q) \<longrightarrow>
              mset rows = mset (filter (\<lambda>r. Some (status r) = q_status q) (reservations s)))
         \<and> (\<not> truthy (q_status q) \<and> \<not> truthy (q_date q) \<longrightarrow>
              mset rows = mset (reservations s))
         \<and> sorted (rev (map (\<lambda>r. (appointmentDate r, appointmentTime r)) rows))"
    apply (rule exI [of _ "orderBy DateTimeDesc ?sel"])
    apply (intro conjI)
        apply (rule eq)
       apply (rule same)
      apply (use same st_only in auto)[1]
     apply (use same all in auto)[1]
    apply (rule srt)
    done
qed

theorem getAllReservations_status_filter_witness:
  "fst (getAllReservations example_env
          \<lparr>q_status = Some ''archived'', q_date = None, q_barberId = None\<rparr>
          (example_state [example_row first_id ''10:00:00'' ''pending'']))
     = respond 200 True (Listing 0 [])
   \<and> fst (getAllReservations example_env
          \<lparr>q_status = Some ''confirmed'', q_date = Some ''2025-12-25'', q_barberId = None\<rparr>
          (example_state [example_row first_id ''10:00:00'' ''pending'',
                          example_row second_id ''11:00:00'' ''confirmed'']))
     = respond 200 True (Listing 1 [example_row second_id ''11:00:00'' ''confirmed''])
   \<and> statusCode (fst (getAllReservations example_env
          \<lparr>q_status = Some ''confirmed'', q_date = Some ''tomorrow'', q_barberId = None\<rparr>
          (example_state [example_row first_id ''10:00:00'' ''pending'']))) = 500"
proof -
  note a = getAllReservations_status_filter
      [where e = example_env and cd = "''2025-12-25''"
         and q = "\<lparr>q_status = Some ''archived'', q_date = None, q_barberId = None\<rparr>"
         and s = "example_state [example_row first_id ''10:00:00'' ''pending'']",
       THEN conjunct2, rule_format]
  note b = getAllReservations_status_filter
      [where e = example_env and cd = "''2025-12-25''"
         and q = "\<lparr>q_status = Some ''confirmed'', q_date = Some ''2025-12-25'',
                   q_barberId = None\<rparr>"
         and s = "example_state [example_row first_id ''10:00:00'' ''pending'',
                                 example_row second_id ''11:00:00'' ''confirmed'']",
       THEN conjunct2, rule_format]
  note c = getAllReservations_status_filter
      [where e = example_env and cd = "''2025-12-25''"
         and q = "\<lparr>q_status = Some ''confirmed'', q_date = Some ''tomorrow'', q_barberId = None\<rparr>"
         and s = "example_state [example_row first_id ''10:00:00'' ''pending'']",
       THEN conjunct1, rule_format]
  have "fst (getAllReservations example_env
          \<lparr>q_status = Some ''archived'', q_date = None, q_barberId = None\<rparr>
          (example_state [example_row first_id ''10:00:00'' ''pending'']))
     = respond 200 True (Listing 0 [])"
    using a by (auto simp: example_state_def example_row_def)
  moreover have "fst (getAllReservations example_env
          \<lparr>q_status = Some ''confirmed'', q_date = Some ''2025-12-25'', q_barberId = None\<rparr>
          (example_state [example_row first_id ''10:00:00'' ''pending'',
                          example_row second_id ''11:00:00'' ''confirmed'']))
     = respond 200 True (Listing 1 [example_row second_id ''11:00:00'' ''confirmed''])"
    using b by (auto simp: example_state_def example_row_def example_dates)
  moreover have "statusCode (fst (getAllReservations example_env
          \<lparr>q_status = Some ''confirmed'', q_date = Some ''tomorrow'', q_barberId = None\<rparr>
          (example_state [example_row first_id ''10:00:00'' ''pending'']))) = 500"
    using c by (simp add: example_dates)
  ultimately show ?thesis by simp
qed

text \<open>
  Claim C10 as stated, for every text, fails at the empty text: \<^verbatim>\<open>if (status)\<close> adds no
  condition for \<^verbatim>\<open>?status=\<close>, and the pending reservation is listed although its status
  is not the parameter.
\<close>

theorem getAllReservations_empty_status_counterexample:
  "fst (getAllReservations example_env \<lparr>q_status = Some [], q_date = None, q_barberId = None\<rparr>
          (example_state [example_row first_id ''10:00:00'' ''pending'']))
     = respond 200 True (Listing 1 [example_row first_id ''10:00:00'' ''pending''])
   \<and> status (example_row first_id ''10:00:00'' ''pending'') \<noteq> []"
  by (simp add: getAllReservations_no_date) (simp add: example_state_def example_row_def)


subsection \<open>Price and duration\<close>

text \<open>
  Neither handler reads the service table, which exists only in the booking form. What an
  update and a create do with price and duration is therefore decided by the request body,
  the stored row, the model's default and the two columns.
\<close>

lemma updateReservation_found:
  assumes "findByPk e pk (reservations s) = Inr (Some r)"
  shows "updateReservation e pk b s =
     (case Reservation_update e r b (reservations s) of
        Inl err \<Rightarrow>
          (respond 500 False (Failure ''Failed to update reservation'' (message err)),
           s\<lparr>console := console s @ [''Update reservation error: '' @ message err]\<rparr>)
      | Inr (updated, table) \<Rightarrow>
          (respond 200 True (Data (Some ''Reservation updated successfully'') updated),
           s\<lparr>reservations := table\<rparr>))"
  using assms by (simp add: updateReservation_def)

lemma Reservation_update_result:
  assumes "Reservation_update e r b table = Inr (updated, table')"
  shows "refused_columns e (b\<lparr>b_id := Absent\<rparr>) = []"
    and "updated = set_values (b\<lparr>b_id := Absent,
            b_appointmentDate := stored (asDate e) (b_appointmentDate b)\<rparr>) r"
    and "table' = map (\<lambda>x. if res_id x = res_id r
                             then set_values (as_stored e (b\<lparr>b_id := Absent\<rparr>)) x else x) table"
  using assms by (auto simp: Reservation_update_def Let_def split: if_splits)

lemma accepted_price:
  "refused_columns e b = [] \<Longrightarrow>
   (case b_price b of Val p \<Rightarrow> \<exists>p'. decimal_10_2 p = Some p' \<and> b_price (as_stored e b) = Val p'
    | v \<Rightarrow> b_price (as_stored e b) = v)"
  by (cases "b_price b")
     (auto simp: refused_columns_def column_errors_def as_stored_def split: if_splits)

lemma integer_column_same: "integer_column n = Some m \<Longrightarrow> m = n"
  by (simp add: integer_column_def split: if_splits)

lemma stored_duration: "b_duration (as_stored e b) = b_duration b"
  by (cases "b_duration b")
     (auto simp: as_stored_def dest: integer_column_same split: option.split)

lemma res_id_set_values: "res_id (set_values b x) = res_id x"
  by (simp add: set_values_def)

lemma update_price_duration:
  assumes found: "findByPk e pk (reservations s) = Inr (Some r)"
    and ok: "statusCode (fst (updateReservation e pk b s)) = 200"
  shows "\<exists>r'. find (\<lambda>x. res_id x = res_id r) (reservations (snd (updateReservation e pk b s)))
                 = Some r'
           \<and> (case b_price b of Val p \<Rightarrow> decimal_10_2 p = Some (price r')
               | v \<Rightarrow> price r' = price r)
           \<and> duration r' = assign (b_duration b) (duration r)"
    and "b_price b = Absent \<longrightarrow>
           map_option price (data_of (fst (updateReservation e pk b s))) = Some (price r)"
    and "b_duration b = Absent \<longrightarrow>
           map_option duration (data_of (fst (updateReservation e pk b s))) = Some (duration r)"
proof -
  from ok obtain updated table'
    where upd: "Reservation_update e r b (reservations s) = Inr (updated, table')"
    by (auto simp: updateReservation_found [OF found] respond_def split: sum.splits)
  note res = Reservation_update_result [OF upd]
  let ?b = "b\<lparr>b_id := Absent\<rparr>"
  let ?f = "\<lambda>x. if res_id x = res_id r then set_values (as_stored e ?b) x else x"
  have "find (\<lambda>x. res_id x = res_id r) (map ?f (reservations s)) =
          map_option ?f (find (\<lambda>x. res_id x = res_id r) (reservations s))"
    by (rule find_map_id) (simp add: res_id_set_values)
  then have row: "find (\<lambda>x. res_id x = res_id r)
                    (reservations (snd (updateReservation e pk b s)))
                  = Some (set_values (as_stored e ?b) r)"
    by (simp add: updateReservation_found [OF found] upd res(3) findByPk_found_row [OF found])
  have price: "(case b_price b of
                  Val p \<Rightarrow> decimal_10_2 p = Some (price (set_values (as_stored e ?b) r))
                | v \<Rightarrow> price (set_values (as_stored e ?b) r) = price r)"
    using accepted_price [OF res(1)]
    by (cases "b_price b") (auto simp: set_values_def)
  have dur: "duration (set_values (as_stored e ?b) r) = assign (b_duration b) (duration r)"
    using stored_duration [of e ?b] by (simp add: set_values_def)
  show "\<exists>r'. find (\<lambda>x. res_id x = res_id r) (reservations (snd (updateReservation e pk b s)))
                 = Some r'
           \<and> (case b_price b of Val p \<Rightarrow> decimal_10_2 p = Some (price r')
               | v \<Rightarrow> price r' = price r)
           \<and> duration r' = assign (b_duration b) (duration r)"
    using row price dur by blast
  show "b_price b = Absent \<longrightarrow>
           map_option price (data_of (fst (updateReservation e pk b s))) = Some (price r)"
    by (simp add: updateReservation_found [OF found] upd res(2) respond_def data_of_def
        set_values_def)
  show "b_duration b = Absent \<longrightarrow>
           map_option duration (data_of (fst (updateReservation e pk b s))) = Some (duration r)"
    by (simp add: updateReservation_found [OF found] upd res(2) respond_def data_of_def
        set_values_def)
qed

lemma validated_price:
  "fst (reservationValidation e b) = [] \<Longrightarrow>
   \<exists>p. b_price b = Val p \<and> b_price (snd (reservationValidation e b)) = Val p"
  by (cases "b_price b") (auto simp: reservationValidation_def Let_def check_def)

lemma validation_keeps_duration:
  "b_duration (snd (reservationValidation e b)) = b_duration b"
  by (simp add: reservationValidation_def Let_def)

lemma Reservation_create_entity:
  assumes "Reservation_create e uuid b table = Inr (r, table')"
  shows "\<exists>p. b_price b = Val p \<and> decimal_10_2 p = Some (price r)"
    and "duration r = assign (b_duration b) 30"
proof -
  let ?b = "withDefaults uuid b"
  have ok: "model_validate e True ?b = []" and acc: "refused_columns e ?b = []"
    and r: "r = set_values (as_stored e ?b) (blank (assign (b_id (as_stored e ?b)) []))"
    using assms by (auto simp: Reservation_create_def Let_def split: if_splits)
  from ok have p: "\<not> nullViolation True (b_price b)"
    and d: "\<not> nullViolation True (orDefault 30 (b_duration b))"
    by (auto simp: model_validate_def attribute_errors_def withDefaults_def split: if_splits)
  have bp: "b_price ?b = b_price b" by (simp add: withDefaults_def)
  from p accepted_price [OF acc] show "\<exists>p. b_price b = Val p \<and> decimal_10_2 p = Some (price r)"
    by (cases "b_price b") (auto simp: r set_values_def bp)
  have "b_duration (as_stored e ?b) = orDefault 30 (b_duration b)"
    using stored_duration [of e ?b] by (simp add: withDefaults_def)
  with d show "duration r = assign (b_duration b) 30"
    by (cases "b_duration b") (simp_all add: r set_values_def)
qed

lemma create_price_duration:
  assumes "statusCode (fst (createReservation e uuid b s)) = 201"
  shows "\<exists>p. b_price b = Val p \<and>
           map_option price (data_of (fst (createReservation e uuid b s))) = decimal_10_2 p"
    and "map_option duration (data_of (fst (createReservation e uuid b s))) =
           Some (assign (b_duration b) 30)"
proof -
  obtain errors sanitized where v: "reservationValidation e b = (errors, sanitized)"
    by (cases "reservationValidation e b")
  from assms v have e0: "errors = []"
    by (auto simp: createReservation_response respond_def split: if_splits)
  from assms v e0 obtain r table
    where c: "Reservation_create e uuid sanitized (reservations s) = Inr (r, table)"
    by (auto simp: createReservation_response respond_def split: sum.splits)
  have resp: "data_of (fst (createReservation e uuid b s)) = Some r"
    by (simp add: createReservation_response v e0 c respond_def data_of_def)
  from validated_price [of e b] v e0 obtain p
    where p: "b_price b = Val p" "b_price sanitized = Val p" by auto
  from validation_keeps_duration [of e b] v have d: "b_duration sanitized = b_duration b"
    by simp
  from Reservation_create_entity(1) [OF c] p
  show "\<exists>p. b_price b = Val p \<and>
           map_option price (data_of (fst (createReservation e uuid b s))) = decimal_10_2 p"
    by (auto simp: resp)
  from Reservation_create_entity(2) [OF c] d
  show "map_option duration (data_of (fst (createReservation e uuid b s))) =
           Some (assign (b_duration b) 30)"
    by (simp add: resp)
qed

text \<open>
  Claim C5, as amended. The server derives nothing from \<^verbatim>\<open>serviceType\<close>. After an update
  answered 200 the row of the reservation holds, whatever \<^verbatim>\<open>serviceType\<close> the body holds,
  the price of the body as the \<^verbatim>\<open>DECIMAL(10,2)\<close> column stores it (rounded to two decimals)
  where the body has one and the price it had where the body has none, and the duration of
  the body where it has one and the duration it had where it has none; the entity of the
  answer has the stored price when the body has none and the stored duration when the body
  has none. In the entity of a create answered 201 the price is the caller's (the validation
  chain requires one) as the column stores it, and the duration is the caller's or the
  model's default of 30 minutes.
\<close>

theorem price_and_duration_caller_supplied:
  "(findByPk e pk (reservations s) = Inr (Some r) \<longrightarrow>
    statusCode (fst (updateReservation e pk b s)) = 200 \<longrightarrow>
      (\<exists>r'. find (\<lambda>x. res_id x = res_id r) (reservations (snd (updateReservation e pk b s)))
               = Some r'
           \<and> (case b_price b of Val p \<Rightarrow> decimal_10_2 p = Some (price r')
               | v \<Rightarrow> price r' = price r)
           \<and> duration r' = assign (b_duration b) (duration r))
      \<and> (b_price b = Absent \<longrightarrow>
           map_option price (data_of (fst (updateReservation e pk b s))) = Some (price r))
      \<and> (b_duration b = Absent \<longrightarrow>
           map_option duration (data_of (fst (updateReservation e pk b s))) =
             Some (duration r)))
   \<and> (statusCode (fst (createReservation e uuid b s)) = 201 \<longrightarrow>
      (\<exists>p. b_price b = Val p \<and>
           map_option price (data_of (fst (createReservation e uuid b s))) = decimal_10_2 p)
      \<and> map_option duration (data_of (fst (createReservation e uuid b s))) =
           Some (assign (b_duration b) 30))"
proof (intro conjI impI)
  assume f: "findByPk e pk (reservations s) = Inr (Some r)"
    and ok: "statusCode (fst (updateReservation e pk b s)) = 200"
  show "\<exists>r'. find (\<lambda>x. res_id x = res_id r) (reservations (snd (updateReservation e pk b s)))
               = Some r'
           \<and> (case b_price b of Val p \<Rightarrow> decimal_10_2 p = Some (price r')
               | v \<Rightarrow> price r' = price r)
           \<and> duration r' = assign (b_duration b) (duration r)"
    by (rule update_price_duration(1) [OF f ok])
  assume "b_price b = Absent"
  then show "map_option price (data_of (fst (updateReservation e pk b s))) = Some (price r)"
    by (rule update_price_duration(2) [OF f ok, rule_format])
next
  assume f: "findByPk e pk (reservations s) = Inr (Some r)"
    and ok: "statusCode (fst (updateReservation e pk b s)) = 200"
    and "b_duration b = Absent"
  then show "map_option duration (data_of (fst (updateReservation e pk b s))) =
             Some (duration r)"
    by (simp add: update_price_duration(3))
next
  assume c: "statusCode (fst (createReservation e uuid b s)) = 201"
  show "\<exists>p. b_price b = Val p \<and>
           map_option price (data_of (fst (createReservation e uuid b s))) = decimal_10_2 p"
    by (rule create_price_duration(1) [OF c])
  show "map_option duration (data_of (fst (createReservation e uuid b s))) =
           Some (assign (b_duration b) 30)"
    by (rule create_price_duration(2) [OF c])
qed

lemma shave_update:
  "updateReservation example_env first_id (empty_body\<lparr>b_serviceType := Val ''shave''\<rparr>)
          (example_state [example_row first_id ''10:00:00'' ''pending''])
   = (respond 200 True
       (Data (Some ''Reservation updated successfully'')
          ((example_row first_id ''10:00:00'' ''pending'')\<lparr>serviceType := ''shave''\<rparr>)),
      example_state [(example_row first_id ''10:00:00'' ''pending'')\<lparr>serviceType := ''shave''\<rparr>])"
  by (simp add: updateReservation_def findByPk_def example_ids example_state_def example_row_def
      Reservation_update_def Let_def model_validate_def attribute_errors_def empty_body_def
      serviceTypes_def set_values_def refused_columns_def column_errors_def as_stored_def
      example_columns)

lemma example_body_checks:
  assumes "p = 15 \<or> p = 25005 / 1000"
  shows "reservationValidation example_env
           (example_body\<lparr>b_serviceType := Val ''shave'', b_price := Val p, b_duration := d\<rparr>)
         = ([], example_body\<lparr>b_serviceType := Val ''shave'', b_price := Val p, b_duration := d\<rparr>)"
    and "model_validate example_env True
           (withDefaults first_id
              (example_body\<lparr>b_serviceType := Val ''shave'', b_price := Val p, b_duration := d\<rparr>))
         = (if d = Null then [''duration''] else [])"
proof -
  from example_env_accepts
  show "reservationValidation example_env
           (example_body\<lparr>b_serviceType := Val ''shave'', b_price := Val p, b_duration := d\<rparr>)
         = ([], example_body\<lparr>b_serviceType := Val ''shave'', b_price := Val p, b_duration := d\<rparr>)"
    using matchesTime_10
    by (simp add: reservationValidation_def Let_def example_body_def accepts_example_def
        trim_examples check_def isLength_def serviceTypes_def)
       (simp add: example_env_def)
  from example_env_accepts
  show "model_validate example_env True
           (withDefaults first_id
              (example_body\<lparr>b_serviceType := Val ''shave'', b_price := Val p, b_duration := d\<rparr>))
         = (if d = Null then [''duration''] else [])"
    by (cases d)
       (simp_all add: model_validate_def withDefaults_def example_body_def accepts_example_def
          attribute_errors_def seq_notEmpty_def isLength_def isSpace_def serviceTypes_def
          statuses_def)
qed

lemma column_examples:
  "decimal_10_2 (25005 / 1000) = Some (2501 / 100)"
  "decimal_10_2 100000000 = None"
  "decimal_10_2 (5001 / 200) = Some (2501 / 100)"
  "integer_column 2147483648 = None"
  by (simp_all add: decimal_10_2_def integer_column_def floor_eq_iff)

lemma shave_create:
  "fst (createReservation example_env first_id
          (example_body\<lparr>b_serviceType := Val ''shave'', b_price := Val 15, b_duration := Absent\<rparr>)
          (example_state []))
   = respond 201 True
       (Data (Some ''Reservation created successfully'')
          ((example_row first_id ''10:00:00'' ''pending'')\<lparr>serviceType := ''shave'', price := 15\<rparr>))"
proof -
  have c: "Reservation_create example_env first_id
             (example_body\<lparr>b_serviceType := Val ''shave'', b_price := Val 15, b_duration := Absent\<rparr>)
             (reservations (example_state []))
           = Inr ((example_row first_id ''10:00:00'' ''pending'')\<lparr>serviceType := ''shave'', price := 15\<rparr>,
                  [(example_row first_id ''10:00:00'' ''pending'')\<lparr>serviceType := ''shave'', price := 15\<rparr>])"
    using example_query_accepted example_time example_ids(2)
    by (simp add: Reservation_create_def Let_def example_body_checks(2))
       (simp add: refused_columns_def column_errors_def as_stored_def withDefaults_def
          example_body_def example_columns set_values_def blank_def example_row_def
          example_state_def)
  show ?thesis
    by (simp add: createReservation_response example_body_checks(1) c)
qed

text \<open>
  The columns at work: a price of 25.005 is answered 201 with 25.01, and a duration of
  \<open>2\<^sup>3\<^sup>1\<close> minutes is answered 500.
\<close>

lemma create_through_the_columns:
  "map_option price
     (data_of (fst (createReservation example_env first_id
        (example_body\<lparr>b_serviceType := Val ''shave'', b_price := Val (25005 / 1000),
                       b_duration := Absent\<rparr>)
        (example_state [])))) = Some (2501 / 100)"
  "statusCode
     (fst (createReservation example_env first_id
        (example_body\<lparr>b_serviceType := Val ''shave'', b_price := Val 15,
                       b_duration := Val 2147483648\<rparr>)
        (example_state []))) = 500"
proof -
  have "Reservation_create example_env first_id
             (example_body\<lparr>b_serviceType := Val ''shave'', b_price := Val (25005 / 1000),
                            b_duration := Absent\<rparr>)
             (reservations (example_state []))
           = Inr ((example_row first_id ''10:00:00'' ''pending'')
                     \<lparr>serviceType := ''shave'', price := 2501 / 100\<rparr>,
                  [(example_row first_id ''10:00:00'' ''pending'')
                     \<lparr>serviceType := ''shave'', price := 2501 / 100\<rparr>])"
    using example_query_accepted example_time example_ids(2)
    by (simp add: Reservation_create_def Let_def example_body_checks(2))
       (simp add: refused_columns_def column_errors_def as_stored_def withDefaults_def
          example_body_def example_columns column_examples set_values_def blank_def
          example_row_def example_state_def)
  then show "map_option price
     (data_of (fst (createReservation example_env first_id
        (example_body\<lparr>b_serviceType := Val ''shave'', b_price := Val (25005 / 1000),
                       b_duration := Absent\<rparr>)
        (example_state [])))) = Some (2501 / 100)"
    by (simp add: createReservation_response example_body_checks(1) respond_def data_of_def)
  have "Reservation_create example_env first_id
             (example_body\<lparr>b_serviceType := Val ''shave'', b_price := Val 15,
                            b_duration := Val 2147483648\<rparr>)
             (reservations (example_state []))
           = Inl (SequelizeDatabaseError [''duration''])"
    using example_query_accepted example_time example_ids(2)
    by (simp add: Reservation_create_def Let_def example_body_checks(2))
       (simp add: refused_columns_def column_errors_def withDefaults_def
          example_body_def example_columns column_examples)
  then show "statusCode
     (fst (createReservation example_env first_id
        (example_body\<lparr>b_serviceType := Val ''shave'', b_price := Val 15,
                       b_duration := Val 2147483648\<rparr>)
        (example_state []))) = 500"
    by (simp add: createReservation_response example_body_checks(1) respond_def)
qed

text \<open>
  Claim C5 as stated fails. Changing the service of a stored haircut (25, 30 minutes) to
  \<^verbatim>\<open>shave\<close> with no price and no duration in the body leaves 25 and 30, and creating a
  \<^verbatim>\<open>shave\<close> with its price and no duration gives 30 minutes, where the service table has
  15 and 20 minutes for a shave.
\<close>

theorem price_and_duration_counterexample:
  "map_option serviceType
     (data_of (fst (updateReservation example_env first_id
        (empty_body\<lparr>b_serviceType := Val ''shave''\<rparr>)
        (example_state [example_row first_id ''10:00:00'' ''pending''])))) = Some ''shave''
   \<and> map_option price
     (data_of (fst (updateReservation example_env first_id
        (empty_body\<lparr>b_serviceType := Val ''shave''\<rparr>)
        (example_state [example_row first_id ''10:00:00'' ''pending''])))) = Some 25
   \<and> map_option duration
     (data_of (fst (updateReservation example_env first_id
        (empty_body\<lparr>b_serviceType := Val ''shave''\<rparr>)
        (example_state [example_row first_id ''10:00:00'' ''pending''])))) = Some 30
   \<and> map_option duration
     (data_of (fst (createReservation example_env first_id
        (example_body\<lparr>b_serviceType := Val ''shave'', b_price := Val 15, b_duration := Absent\<rparr>)
        (example_state [])))) = Some 30
   \<and> map_of services ''shave'' = Some (15, 20)"
  by (simp add: shave_update shave_create data_of_def respond_def)
     (simp add: example_row_def services_def)

theorem price_and_duration_caller_supplied_witness:
  "map_option price
     (data_of (fst (updateReservation example_env first_id
        (empty_body\<lparr>b_serviceType := Val ''shave''\<rparr>)
        (example_state [example_row first_id ''10:00:00'' ''pending''])))) = Some 25
   \<and> map_option duration
     (data_of (fst (createReservation example_env first_id
        (example_body\<lparr>b_serviceType := Val ''shave'', b_price := Val 15, b_duration := Absent\<rparr>)
        (example_state [])))) = Some 30"
proof -
  note upd = price_and_duration_caller_supplied
      [where pk = first_id and e = example_env
         and s = "example_state [example_row first_id ''10:00:00'' ''pending'']"
         and r = "example_row first_id ''10:00:00'' ''pending''"
         and b = "empty_body\<lparr>b_serviceType := Val ''shave''\<rparr>" and uuid = second_id,
       THEN conjunct1, rule_format]
  note cre = price_and_duration_caller_supplied
      [where pk = first_id and e = example_env and s = "example_state []"
         and r = "example_row first_id ''10:00:00'' ''pending''"
         and b = "example_body\<lparr>b_serviceType := Val ''shave'', b_price := Val 15, b_duration := Absent\<rparr>"
         and uuid = first_id,
       THEN conjunct2, rule_format]
  have f: "findByPk example_env first_id
             (reservations (example_state [example_row first_id ''10:00:00'' ''pending'']))
      = Inr (Some (example_row first_id ''10:00:00'' ''pending''))"
    by (simp add: findByPk_def example_ids example_state_def example_row_def)
  have u200: "statusCode (fst (updateReservation example_env first_id
        (empty_body\<lparr>b_serviceType := Val ''shave''\<rparr>)
        (example_state [example_row first_id ''10:00:00'' ''pending'']))) = 200"
    by (simp add: shave_update respond_def)
  have c201: "statusCode (fst (createReservation example_env first_id
        (example_body\<lparr>b_serviceType := Val ''shave'', b_price := Val 15, b_duration := Absent\<rparr>)
        (example_state []))) = 201"
    by (simp add: shave_create respond_def)
  have absent: "b_price (empty_body\<lparr>b_serviceType := Val ''shave''\<rparr>) = Absent"
    by (simp add: empty_body_def)
  have "map_option price
     (data_of (fst (updateReservation example_env first_id
        (empty_body\<lparr>b_serviceType := Val ''shave''\<rparr>)
        (example_state [example_row first_id ''10:00:00'' ''pending''])))) = Some 25"
    using upd [OF f u200, THEN conjunct2, THEN conjunct1, rule_format, OF absent]
    by (simp add: example_row_def)
  moreover have "map_option duration
     (data_of (fst (createReservation example_env first_id
        (example_body\<lparr>b_serviceType := Val ''shave'', b_price := Val 15, b_duration := Absent\<rparr>)
        (example_state [])))) = Some 30"
    using cre [OF c201, THEN conjunct2] by simp
  ultimately show ?thesis by simp
qed

end
